theory Spec2Isabelle
  imports Complex_Main
begin

section \<open>String operations of the platform\<close>

text \<open>
  A string is a list of code units. The model covers the code units below 256 (one
  \<^typ>\<open>char\<close> each, read as Latin-1); \<open>trim\<close> and \<open>toLowerCase\<close> are written out for
  that range.
\<close>

definition js_whitespace :: "char \<Rightarrow> bool" where
  "js_whitespace c \<longleftrightarrow>
     c \<in> {CHR 0x09, CHR 0x0A, CHR 0x0B, CHR 0x0C, CHR 0x0D, CHR 0x20, CHR 0xA0}"

definition trim :: "string \<Rightarrow> string" where
  "trim s = rev (dropWhile js_whitespace (rev (dropWhile js_whitespace s)))"

definition upper_chars :: string where
  "upper_chars = ''ABCDEFGHIJKLMNOPQRSTUVWXYZ'' @
     [CHR 0xC0, CHR 0xC1, CHR 0xC2, CHR 0xC3, CHR 0xC4, CHR 0xC5, CHR 0xC6, CHR 0xC7,
      CHR 0xC8, CHR 0xC9, CHR 0xCA, CHR 0xCB, CHR 0xCC, CHR 0xCD, CHR 0xCE, CHR 0xCF,
      CHR 0xD0, CHR 0xD1, CHR 0xD2, CHR 0xD3, CHR 0xD4, CHR 0xD5, CHR 0xD6,
      CHR 0xD8, CHR 0xD9, CHR 0xDA, CHR 0xDB, CHR 0xDC, CHR 0xDD, CHR 0xDE]"

definition lower_chars :: string where
  "lower_chars = ''abcdefghijklmnopqrstuvwxyz'' @
     [CHR 0xE0, CHR 0xE1, CHR 0xE2, CHR 0xE3, CHR 0xE4, CHR 0xE5, CHR 0xE6, CHR 0xE7,
      CHR 0xE8, CHR 0xE9, CHR 0xEA, CHR 0xEB, CHR 0xEC, CHR 0xED, CHR 0xEE, CHR 0xEF,
      CHR 0xF0, CHR 0xF1, CHR 0xF2, CHR 0xF3, CHR 0xF4, CHR 0xF5, CHR 0xF6,
      CHR 0xF8, CHR 0xF9, CHR 0xFA, CHR 0xFB, CHR 0xFC, CHR 0xFD, CHR 0xFE]"

definition lower_char :: "char \<Rightarrow> char" where
  "lower_char c = (case map_of (zip upper_chars lower_chars) c of Some l \<Rightarrow> l | None \<Rightarrow> c)"

definition toLowerCase :: "string \<Rightarrow> string" where
  "toLowerCase s = map lower_char s"

definition startsWith :: "string \<Rightarrow> string \<Rightarrow> bool" where
  "startsWith s p \<longleftrightarrow> take (length p) s = p"

fun includes_str :: "string \<Rightarrow> string \<Rightarrow> bool" where
  "includes_str [] sub = (sub = [])"
| "includes_str (c # cs) sub = (startsWith (c # cs) sub \<or> includes_str cs sub)"

text \<open>\<open>s.slice(7, -3)\<close>: from index 7 up to three code units before the end.\<close>

definition slice_7_m3 :: "string \<Rightarrow> string" where
  "slice_7_m3 s = take (length s - 3 - 7) (drop 7 s)"

text \<open>\<open>s.split(sep)[0]\<close> and \<open>s.split(sep)[1]\<close>; the latter is \<open>undefined\<close> (None)
  when the separator does not occur.\<close>

definition split_0 :: "char \<Rightarrow> string \<Rightarrow> string" where
  "split_0 sep s = takeWhile (\<lambda>c. c \<noteq> sep) s"

definition split_1 :: "char \<Rightarrow> string \<Rightarrow> string option" where
  "split_1 sep s =
     (case dropWhile (\<lambda>c. c \<noteq> sep) s of
        [] \<Rightarrow> None
      | _ # rest \<Rightarrow> Some (takeWhile (\<lambda>c. c \<noteq> sep) rest))"

text \<open>A template literal prints a missing value as the word \<open>undefined\<close>.\<close>

definition tpl :: "string option \<Rightarrow> string" where
  "tpl v = (case v of None \<Rightarrow> ''undefined'' | Some s \<Rightarrow> s)"

section \<open>Values and plain objects\<close>

text \<open>The values \<open>JSON.parse\<close> can return. Of a number the program observes only
  whether it is zero.\<close>

datatype jsval =
    JUndefined
  | JNull
  | JBool bool
  | JNum real
  | JStr string
  | JArr "jsval list"
  | JObj "(string \<times> jsval) list"

fun truthy :: "jsval \<Rightarrow> bool" where
  "truthy JUndefined = False"
| "truthy JNull = False"
| "truthy (JBool b) = b"
| "truthy (JNum n) = (n \<noteq> 0)"
| "truthy (JStr s) = (s \<noteq> [])"
| "truthy (JArr _) = True"
| "truthy (JObj _) = True"

text \<open>Reading a property of a parsed value: own properties of an object; every other
  value a JSON text denotes has no property of the names the program reads.\<close>

fun get_prop :: "jsval \<Rightarrow> string \<Rightarrow> jsval" where
  "get_prop (JObj kvs) k = (case map_of kvs k of Some v \<Rightarrow> v | None \<Rightarrow> JUndefined)"
| "get_prop _ k = JUndefined"

text \<open>
  The two lookup tables of the program are object literals, so \<open>table[key]\<close> also
  finds the members every object inherits. All of them are truthy and none is a string.
\<close>

definition Object_prototype_keys :: "string list" where
  "Object_prototype_keys =
     [''constructor'', ''__proto__'', ''hasOwnProperty'', ''isPrototypeOf'',
      ''propertyIsEnumerable'', ''toLocaleString'', ''toString'', ''valueOf'',
      ''__defineGetter__'', ''__defineSetter__'', ''__lookupGetter__'', ''__lookupSetter__'']"

datatype 'v member = Own 'v | Inherited string | Absent

definition object_get :: "(string \<times> 'v) list \<Rightarrow> string \<Rightarrow> 'v member" where
  "object_get table k =
     (case map_of table k of
        Some v \<Rightarrow> Own v
      | None \<Rightarrow> if k \<in> set Object_prototype_keys then Inherited k else Absent)"

section \<open>The speech synthesizer and the voice selection\<close>

record voice =
  v_name :: string
  v_lang :: string
  v_localService :: bool
  v_default :: bool

record utterance =
  u_text :: jsval
  u_lang :: jsval
  u_voice :: "voice option"

datatype console_msg =
    Warn_no_voice jsval
  | Error_parse string
  | Error_caught

text \<open>What the program reaches outside its own state: the queue of the one global
  synthesizer and the console.\<close>

record world =
  synth_queue :: "utterance list"
  console :: "console_msg list"

definition synth_cancel :: "world \<Rightarrow> world" where
  "synth_cancel w = w\<lparr>synth_queue := []\<rparr>"

definition synth_speak :: "utterance \<Rightarrow> world \<Rightarrow> world" where
  "synth_speak u w = w\<lparr>synth_queue := synth_queue w @ [u]\<rparr>"

definition console_log :: "console_msg \<Rightarrow> world \<Rightarrow> world" where
  "console_log m w = w\<lparr>console := console w @ [m]\<rparr>"

datatype js_error = TypeError | SyntaxError | RequestFailed

datatype gender = male | female | neutral | inherited_member string

definition roleToGender :: "(string \<times> gender) list" where
  "roleToGender =
     [(''king'', male), (''policeman'', male), (''police'', male), (''police officer'', male),
      (''farmer'', male), (''doctor'', male), (''prince'', male), (''emperor'', male),
      (''pirate'', male), (''knight'', male), (''wizard'', male), (''detective'', male),
      (''man'', male), (''boy'', male),
      (''queen'', female), (''policewoman'', female), (''teacher'', female),
      (''dancer'', female), (''singer'', female), (''princess'', female),
      (''empress'', female), (''witch'', female), (''actress'', female),
      (''woman'', female), (''girl'', female)]"

text \<open>\<open>roleToGender[currentRole.toLowerCase().trim()] || 'neutral'\<close>\<close>

definition gender_of_role :: "string \<Rightarrow> gender" where
  "gender_of_role currentRole =
     (let normalizedRole = trim (toLowerCase currentRole)
      in case object_get roleToGender normalizedRole of
           Own g \<Rightarrow> g
         | Inherited k \<Rightarrow> inherited_member k
         | Absent \<Rightarrow> neutral)"

text \<open>The word that \<open>includes\<close> looks for in a voice's name; \<open>speak\<close> asks for it
  only when the hint is \<open>male\<close> or \<open>female\<close>.\<close>

definition gender_word :: "gender \<Rightarrow> string" where
  "gender_word g = (case g of male \<Rightarrow> ''male'' | female \<Rightarrow> ''female''
                    | neutral \<Rightarrow> ''neutral'' | inherited_member k \<Rightarrow> k)"

text \<open>\<open>a || b\<close> on values that are an object or \<open>undefined\<close>, and \<open>xs[0]\<close>.\<close>

definition or_else :: "'a option \<Rightarrow> 'a option \<Rightarrow> 'a option" where
  "or_else a b = (case a of Some x \<Rightarrow> Some x | None \<Rightarrow> b)"

definition first :: "'a list \<Rightarrow> 'a option" where
  "first xs = (case xs of [] \<Rightarrow> None | x # _ \<Rightarrow> Some x)"

text \<open>
  \<open>voices.filter(v => v.lang === lang || v.lang.startsWith(lang.split('-')[0]))\<close>.
  A tag that is not a string equals no voice's language and has no \<open>split\<close>, so the
  callback throws at the first voice; on an empty list it is never called.
\<close>

definition lang_matches :: "string \<Rightarrow> voice \<Rightarrow> bool" where
  "lang_matches l v \<longleftrightarrow> v_lang v = l \<or> startsWith (v_lang v) (split_0 CHR ''-'' l)"

definition lang_filter :: "jsval \<Rightarrow> voice list \<Rightarrow> js_error + voice list" where
  "lang_filter lang vs =
     (case lang of
        JStr l \<Rightarrow> Inr (filter (lang_matches l) vs)
      | _ \<Rightarrow> if vs = [] then Inr [] else Inl TypeError)"

definition gender_matches :: "gender \<Rightarrow> voice \<Rightarrow> bool" where
  "gender_matches g v \<longleftrightarrow> includes_str (toLowerCase (v_name v)) (gender_word g)"

definition select_voice :: "gender \<Rightarrow> voice list \<Rightarrow> voice option" where
  "select_voice g langVoices =
     (let selectedVoice =
        (if g = male \<or> g = female then
           (let genderVoices = filter (gender_matches g) langVoices
            in if genderVoices \<noteq> []
               then or_else (find (\<lambda>v. \<not> v_localService v) genderVoices) (first genderVoices)
               else None)
         else None)
      in case selectedVoice of
           Some v \<Rightarrow> Some v
         | None \<Rightarrow> or_else (find v_default langVoices)
                     (or_else (find (\<lambda>v. \<not> v_localService v) langVoices) (first langVoices)))"

text \<open>\<open>speak\<close>: the result is \<open>Inl\<close> when the call throws, with the world as it is then.\<close>

definition speak ::
  "voice list \<Rightarrow> jsval \<Rightarrow> jsval \<Rightarrow> gender \<Rightarrow> world \<Rightarrow> js_error \<times> world + world" where
  "speak vs text lang g w =
     (let w1 = synth_cancel w
      in case lang_filter lang vs of
           Inl e \<Rightarrow> Inl (e, w1)
         | Inr langVoices \<Rightarrow>
             if langVoices \<noteq> []
             then Inr (synth_speak
                    \<lparr>u_text = text, u_lang = lang, u_voice = select_voice g langVoices\<rparr> w1)
             else Inr (synth_speak \<lparr>u_text = text, u_lang = lang, u_voice = None\<rparr>
                    (console_log (Warn_no_voice lang) w1)))"

section \<open>The state of the component and the hosted services\<close>

record encoded_image =
  base64 :: "string option"
  mimeType :: string

record app_state =
  originalImage :: "encoded_image option"
  displayImage :: "string option"
  prompt :: string
  currentRole :: "string option"
  isLoading :: bool
  error :: "string option"
  voices :: "voice list"

definition initial_state :: app_state where
  "initial_state =
     \<lparr>originalImage = None, displayImage = None, prompt = [], currentRole = None,
      isLoading = False, error = None, voices = []\<rparr>"

text \<open>A string-or-null state variable is truthy when it is a non-empty string:
  \<open>active_role\<close> is then that string, and None when \<open>!currentRole\<close> holds.\<close>

definition active_role :: "string option \<Rightarrow> string option" where
  "active_role r = (case r of Some (c # cs) \<Rightarrow> Some (c # cs) | _ \<Rightarrow> None)"

definition data_url :: "string \<Rightarrow> string option \<Rightarrow> string" where
  "data_url mime b64 = ''data:'' @ mime @ '';base64,'' @ tpl b64"

text \<open>The two requests to the hosted models: the image with the transform
  instruction, and the system instruction with the user's text.\<close>

datatype request =
    TransformRequest encoded_image string
  | ChatRequest string string

definition transform_instruction :: "string \<Rightarrow> string" where
  \<open>transform_instruction currentPrompt =
     ''Transform the person in the photo to embody the role of: "'' @ currentPrompt @
     ''". Change their clothes, accessories, and background to match the role. Do not add any text or speech bubbles. Only output the transformed image.''\<close>

definition systemInstruction :: "string \<Rightarrow> string" where
  \<open>systemInstruction role =
     ''You are an AI Avatar. Your current role is "'' @ role @ ''".'' @ [CHR 0x0A] @
     ''You must follow these rules:'' @ [CHR 0x0A] @
     ''1. Stay fully in character for the role of "'' @ role @ ''".'' @ [CHR 0x0A] @
     ''2. Always reply in the same language the user speaks (e.g., Hindi or English).'' @
     [CHR 0x0A] @
     ''3. Your response will be spoken, so it should be conversational.''\<close>

text \<open>The part of a model response the program reads; every level may be missing.\<close>

record inline_data =
  d_data :: "string option"
  d_mimeType :: "string option"

record part =
  inlineData :: "inline_data option"

record content =
  parts :: "part list option"

record candidate =
  c_content :: "content option"

record response =
  candidates :: "candidate list option"
  r_text :: "string option"

datatype 'a awaited = Rejected | Resolved 'a

text \<open>\<open>response.candidates[0]?.content?.parts[0]\<close>\<close>

definition first_part :: "response \<Rightarrow> js_error + part option" where
  "first_part r =
     (case candidates r of
        None \<Rightarrow> Inl TypeError
      | Some [] \<Rightarrow> Inr None
      | Some (c # _) \<Rightarrow>
          (case c_content c of
             None \<Rightarrow> Inr None
           | Some ct \<Rightarrow>
               (case parts ct of
                  None \<Rightarrow> Inl TypeError
                | Some ps \<Rightarrow> Inr (first ps))))"

section \<open>Upload and role reset\<close>

record image_file =
  file_type :: string

text \<open>\<open>handleImageChange\<close> up to \<open>reader.readAsDataURL(file)\<close>; the second component is
  the file whose read has been started.\<close>

definition handleImageChange :: "image_file option \<Rightarrow> app_state \<Rightarrow> app_state \<times> image_file option" where
  "handleImageChange f s =
     (case f of
        None \<Rightarrow> (s, None)
      | Some fl \<Rightarrow> (s\<lparr>error := None, currentRole := None, prompt := []\<rparr>, Some fl))"

text \<open>The reader's callbacks. A read that fails has the result \<open>null\<close>: \<open>onerror\<close>
  runs, and \<open>onloadend\<close> throws at \<open>split\<close> before it sets anything.\<close>

definition reader_onerror :: "app_state \<Rightarrow> app_state" where
  "reader_onerror s = s\<lparr>error := Some ''Failed to read the image file.''\<rparr>"

definition reader_onloadend :: "image_file \<Rightarrow> string option \<Rightarrow> app_state \<Rightarrow> js_error + app_state" where
  "reader_onloadend fl result s =
     (case result of
        None \<Rightarrow> Inl TypeError
      | Some r \<Rightarrow>
          (let base64String = split_1 CHR '','' r;
               imageState = \<lparr>base64 = base64String, mimeType = file_type fl\<rparr>
           in Inr (s\<lparr>originalImage := Some imageState,
                     displayImage := Some (data_url (file_type fl) base64String)\<rparr>)))"

definition reader_done :: "image_file \<Rightarrow> string option \<Rightarrow> app_state \<Rightarrow> app_state" where
  "reader_done fl result s =
     (let s1 = (if result = None then reader_onerror s else s)
      in case reader_onloadend fl result s1 of Inl _ \<Rightarrow> s1 | Inr s2 \<Rightarrow> s2)"

definition handleRoleReset :: "app_state \<Rightarrow> app_state" where
  "handleRoleReset s =
     (let s1 = s\<lparr>currentRole := None, error := None\<rparr>
      in case originalImage s of
           Some img \<Rightarrow> s1\<lparr>displayImage := Some (data_url (mimeType img) (base64 img))\<rparr>
         | None \<Rightarrow> s1)"

section \<open>Form submission\<close>

text \<open>What the continuation of a submission keeps from the render that started it.\<close>

datatype pending =
    AwaitTransform string
  | AwaitChat string gender "voice list"

text \<open>\<open>handleSubmit\<close> up to its \<open>await\<close>: the guard, the three state updates and the
  request that is sent.\<close>

definition handleSubmit_start :: "app_state \<Rightarrow> app_state \<times> (request \<times> pending) option" where
  "handleSubmit_start s =
     (case originalImage s of
        None \<Rightarrow> (s\<lparr>error := Some ''Please provide a role or a message.''\<rparr>, None)
      | Some img \<Rightarrow>
          if trim (prompt s) = []
          then (s\<lparr>error := Some ''Please provide a role or a message.''\<rparr>, None)
          else
            (let currentPrompt = prompt s;
                 s1 = s\<lparr>isLoading := True, error := None, prompt := []\<rparr>
             in case active_role (currentRole s) of
                  None \<Rightarrow>
                    (s1, Some (TransformRequest img (transform_instruction currentPrompt),
                               AwaitTransform currentPrompt))
                | Some role \<Rightarrow>
                    (s1, Some (ChatRequest (systemInstruction role) currentPrompt,
                               AwaitChat currentPrompt (gender_of_role role) (voices s)))))"

text \<open>The transform branch after its \<open>await\<close>. \<open>Inl\<close> is a throw, to the outer
  \<open>catch\<close>.\<close>

definition transform_step ::
  "string \<Rightarrow> response awaited \<Rightarrow> app_state \<Rightarrow> js_error + app_state" where
  "transform_step currentPrompt out s =
     (case out of
        Rejected \<Rightarrow> Inl RequestFailed
      | Resolved r \<Rightarrow>
          (case first_part r of
             Inl e \<Rightarrow> Inl e
           | Inr p \<Rightarrow>
               (case (case p of None \<Rightarrow> None | Some pt \<Rightarrow> inlineData pt) of
                  Some d \<Rightarrow>
                    Inr (s\<lparr>displayImage := Some (''data:'' @ tpl (d_mimeType d) @ '';base64,''
                                                  @ tpl (d_data d)),
                           currentRole := Some currentPrompt\<rparr>)
                | None \<Rightarrow>
                    Inr (s\<lparr>error :=
                             Some ''Failed to transform the image. Please try a different role.'',
                           prompt := currentPrompt\<rparr>))))"

text \<open>The inner \<open>try\<close> of the chat branch. \<open>JSON.parse\<close> is the platform's: it is a
  parameter, None where it throws. Destructuring \<open>null\<close> throws.\<close>

definition parse_and_speak ::
  "(string \<Rightarrow> jsval option) \<Rightarrow> string \<Rightarrow> string \<Rightarrow> gender \<Rightarrow> voice list \<Rightarrow>
   app_state \<times> world \<Rightarrow> js_error \<times> app_state \<times> world + app_state \<times> world" where
  "parse_and_speak JSON_parse jsonString currentPrompt g vs sw =
     (case sw of (s, w) \<Rightarrow>
        (case JSON_parse jsonString of
           None \<Rightarrow> Inl (SyntaxError, s, w)
         | Some v \<Rightarrow>
             if v = JNull \<or> v = JUndefined then Inl (TypeError, s, w)
             else
               (let language = get_prop v ''language'';
                    textResponse = get_prop v ''response''
                in if truthy textResponse
                   then (case speak vs textResponse language g w of
                           Inl (e, w1) \<Rightarrow> Inl (e, s, w1)
                         | Inr w1 \<Rightarrow> Inr (s, w1))
                   else Inr (s\<lparr>error := Some ''I'm sorry, I couldn't think of a response.'',
                               prompt := currentPrompt\<rparr>, w))))"

text \<open>The inner \<open>catch\<close>: the text that was no JSON is spoken as it is, in English.\<close>

definition parse_failed ::
  "string \<Rightarrow> string \<Rightarrow> gender \<Rightarrow> voice list \<Rightarrow>
   app_state \<times> world \<Rightarrow> js_error \<times> app_state \<times> world + app_state \<times> world" where
  "parse_failed responseText currentPrompt g vs sw =
     (case sw of (s1, w1) \<Rightarrow>
        (let w2 = console_log (Error_parse responseText) w1
         in if responseText \<noteq> []
            then (case speak vs (JStr responseText) (JStr ''en-US'') g w2 of
                    Inl (e2, w3) \<Rightarrow> Inl (e2, s1, w3)
                  | Inr w3 \<Rightarrow> Inr (s1, w3))
            else Inr (s1\<lparr>error := Some ''I'm sorry, I received an invalid response.'',
                          prompt := currentPrompt\<rparr>, w2)))"

text \<open>\<open>jsonString\<close>: the response text without a Markdown fence around it.\<close>

definition jsonString :: "string \<Rightarrow> string" where
  "jsonString responseText =
     (if startsWith responseText ''```json''
      then trim (slice_7_m3 responseText) else responseText)"

text \<open>The chat branch after its \<open>await\<close>.\<close>

definition chat_step ::
  "(string \<Rightarrow> jsval option) \<Rightarrow> string \<Rightarrow> gender \<Rightarrow> voice list \<Rightarrow> response awaited \<Rightarrow>
   app_state \<times> world \<Rightarrow> js_error \<times> app_state \<times> world + app_state \<times> world" where
  "chat_step JSON_parse currentPrompt g vs out sw =
     (case out of
        Rejected \<Rightarrow> Inl (RequestFailed, sw)
      | Resolved r \<Rightarrow>
          (case r_text r of
             None \<Rightarrow> Inl (TypeError, sw)
           | Some t \<Rightarrow>
               (let responseText = trim t
                in case parse_and_speak JSON_parse (jsonString responseText)
                          currentPrompt g vs sw of
                     Inr sw1 \<Rightarrow> Inr sw1
                   | Inl (e, sw1) \<Rightarrow> parse_failed responseText currentPrompt g vs sw1)))"

text \<open>\<open>handleSubmit\<close> from its \<open>await\<close> on: the branch, the outer \<open>catch\<close> and the
  \<open>finally\<close>. It runs on the state as it is when the response arrives.\<close>

definition handleSubmit_resume ::
  "(string \<Rightarrow> jsval option) \<Rightarrow> pending \<Rightarrow> response awaited \<Rightarrow>
   app_state \<times> world \<Rightarrow> app_state \<times> world" where
  "handleSubmit_resume JSON_parse pd out sw =
     (let tried =
        (case pd of
           AwaitTransform currentPrompt \<Rightarrow>
             (case transform_step currentPrompt out (fst sw) of
                Inl e \<Rightarrow> Inl (e, sw)
              | Inr s1 \<Rightarrow> Inr (s1, snd sw))
         | AwaitChat currentPrompt g vs \<Rightarrow> chat_step JSON_parse currentPrompt g vs out sw);
          currentPrompt = (case pd of AwaitTransform p \<Rightarrow> p | AwaitChat p _ _ \<Rightarrow> p);
          caught =
            (case tried of
               Inr sw1 \<Rightarrow> sw1
             | Inl (e, s1, w1) \<Rightarrow>
                 (s1\<lparr>error :=
                       Some ''An error occurred while generating the response. Please try again.'',
                     prompt := currentPrompt\<rparr>,
                  console_log Error_caught w1))
      in (fst caught\<lparr>isLoading := False\<rparr>, snd caught))"

text \<open>A submission whose request is answered before anything else happens. The third
  component lists the requests it sent.\<close>

definition handleSubmit ::
  "(string \<Rightarrow> jsval option) \<Rightarrow> response awaited \<Rightarrow> app_state \<times> world \<Rightarrow>
   (app_state \<times> world) \<times> request list" where
  "handleSubmit JSON_parse out sw =
     (case handleSubmit_start (fst sw) of
        (s1, None) \<Rightarrow> ((s1, snd sw), [])
      | (s1, Some (req, pd)) \<Rightarrow> (handleSubmit_resume JSON_parse pd out (s1, snd sw), [req]))"

section \<open>The rendered controls and the events of the component\<close>

text \<open>What the JSX of \<open>App\<close> makes of the state, as far as it decides which handlers
  the user can start.\<close>

record view =
  form_shown :: bool
  input_disabled :: bool
  submit_disabled :: bool
  change_role_shown :: bool
  upload_shown :: bool

definition render :: "app_state \<Rightarrow> view" where
  "render s =
     \<lparr>form_shown = (originalImage s \<noteq> None),
      input_disabled = isLoading s,
      submit_disabled = isLoading s,
      change_role_shown =
        (originalImage s \<noteq> None \<and> active_role (currentRole s) \<noteq> None \<and> \<not> isLoading s),
      upload_shown = (originalImage s = None)\<rparr>"

text \<open>
  The running component: its state, the world, the requests that have been sent and not
  yet answered, and the file reads that have been started and not yet ended.
\<close>

record system =
  app :: app_state
  outside :: world
  inflight :: "pending list"
  reading :: "image_file list"

definition initial_system :: system where
  "initial_system =
     \<lparr>app = initial_state, outside = \<lparr>synth_queue = [], console = []\<rparr>,
      inflight = [], reading = []\<rparr>"

datatype event =
    Type_prompt string
  | Submit
  | Respond nat "response awaited"
  | ImageChange "image_file option"
  | ReaderEnd nat "string option"
  | Reset
  | VoicesChanged "voice list"
  | UtteranceEnd

definition remove_nth :: "nat \<Rightarrow> 'a list \<Rightarrow> 'a list" where
  "remove_nth i xs = take i xs @ drop (Suc i) xs"

text \<open>
  One event; None when the rendered controls do not let it happen. Typing and submitting
  need the form with its input and button enabled, the role reset needs its button. The
  file input's change event is let through in every state, and so are the callbacks of
  the platform.
\<close>

definition fire :: "(string \<Rightarrow> jsval option) \<Rightarrow> event \<Rightarrow> system \<Rightarrow> system option" where
  "fire JSON_parse e sys =
     (case e of
        Type_prompt p \<Rightarrow>
          if form_shown (render (app sys)) \<and> \<not> input_disabled (render (app sys))
          then Some (sys\<lparr>app := (app sys)\<lparr>prompt := p\<rparr>\<rparr>)
          else None
      | Submit \<Rightarrow>
          if form_shown (render (app sys)) \<and> \<not> submit_disabled (render (app sys))
          then (case handleSubmit_start (app sys) of
                  (s1, None) \<Rightarrow> Some (sys\<lparr>app := s1\<rparr>)
                | (s1, Some (req, pd)) \<Rightarrow>
                    Some (sys\<lparr>app := s1, inflight := inflight sys @ [pd]\<rparr>))
          else None
      | Respond i out \<Rightarrow>
          if i < length (inflight sys)
          then (case handleSubmit_resume JSON_parse (inflight sys ! i) out
                       (app sys, outside sys) of
                  (s1, w1) \<Rightarrow>
                    Some (sys\<lparr>app := s1, outside := w1,
                              inflight := remove_nth i (inflight sys)\<rparr>))
          else None
      | ImageChange f \<Rightarrow>
          (case handleImageChange f (app sys) of
             (s1, None) \<Rightarrow> Some (sys\<lparr>app := s1\<rparr>)
           | (s1, Some fl) \<Rightarrow> Some (sys\<lparr>app := s1, reading := reading sys @ [fl]\<rparr>))
      | ReaderEnd i result \<Rightarrow>
          if i < length (reading sys)
          then Some (sys\<lparr>app := reader_done (reading sys ! i) result (app sys),
                         reading := remove_nth i (reading sys)\<rparr>)
          else None
      | Reset \<Rightarrow>
          if change_role_shown (render (app sys))
          then Some (sys\<lparr>app := handleRoleReset (app sys)\<rparr>)
          else None
      | VoicesChanged vs \<Rightarrow> Some (sys\<lparr>app := (app sys)\<lparr>voices := vs\<rparr>\<rparr>)
      | UtteranceEnd \<Rightarrow>
          Some (sys\<lparr>outside := (outside sys)\<lparr>synth_queue := tl (synth_queue (outside sys))\<rparr>\<rparr>))"

fun run :: "(string \<Rightarrow> jsval option) \<Rightarrow> event list \<Rightarrow> system \<Rightarrow> system option" where
  "run JSON_parse [] sys = Some sys"
| "run JSON_parse (e # es) sys =
     (case fire JSON_parse e sys of None \<Rightarrow> None | Some sys1 \<Rightarrow> run JSON_parse es sys1)"

section \<open>The proxy for the talking-head service\<close>

definition roleVoices :: "(string \<times> string) list" where
  "roleVoices =
     [(''king'', ''male_deep_indian''), (''police'', ''male_strict''),
      (''farmer'', ''male_simple''), (''doctor'', ''male_doctor''),
      (''queen'', ''female_royal''), (''teacher'', ''female_teacher''),
      (''dancer'', ''female_excited''), (''singer'', ''female_singer'')]"

text \<open>The value of \<open>voiceId\<close>: a voice name, or a member every object inherits, which
  is no string.\<close>

datatype voice_id = VoiceName string | InheritedValue string

record talk_body =
  b_text :: jsval
  b_role :: jsval

text \<open>\<open>roleVoices[role?.toLowerCase()] || "default_voice"\<close>: a missing role reads the
  key \<open>undefined\<close>; a role that is not a string has no \<open>toLowerCase\<close>.\<close>

definition voice_for_key :: "string \<Rightarrow> voice_id" where
  "voice_for_key k =
     (case object_get roleVoices k of
        Own v \<Rightarrow> VoiceName v
      | Inherited m \<Rightarrow> InheritedValue m
      | Absent \<Rightarrow> VoiceName ''default_voice'')"

definition voiceId_of :: "jsval \<Rightarrow> js_error + voice_id" where
  "voiceId_of r =
     (case r of
        JUndefined \<Rightarrow> Inr (voice_for_key ''undefined'')
      | JNull \<Rightarrow> Inr (voice_for_key ''undefined'')
      | JStr rs \<Rightarrow> Inr (voice_for_key (toLowerCase rs))
      | _ \<Rightarrow> Inl TypeError)"

record talks_request =
  script_type :: string
  script_input :: jsval
  script_voice_id :: voice_id
  source_url :: string

text \<open>What \<open>fetch\<close> and \<open>response.json()\<close> give: a rejection, or a response with its
  status and its body parsed as JSON (None when the body is no JSON).\<close>

datatype upstream = FetchRejected | FetchResponse nat "jsval option"

record http_response =
  status :: nat
  body :: jsval

definition api_talk ::
  "(talks_request \<Rightarrow> upstream) \<Rightarrow> talk_body \<Rightarrow> talks_request option \<times> http_response" where
  "api_talk api b =
     (let failed = \<lparr>status = 500, body = JObj [(''error'', JStr ''Something went wrong'')]\<rparr>
      in case voiceId_of (b_role b) of
           Inl e \<Rightarrow> (None, failed)
         | Inr voiceId \<Rightarrow>
             (let req = \<lparr>script_type = ''text'', script_input = b_text b,
                         script_voice_id = voiceId,
                         source_url = ''https://....avatar-image-url''\<rparr>
              in case api req of
                   FetchRejected \<Rightarrow> (Some req, failed)
                 | FetchResponse st None \<Rightarrow> (Some req, failed)
                 | FetchResponse st (Some data) \<Rightarrow>
                     (Some req, \<lparr>status = 200, body = data\<rparr>)))"

section \<open>Invariants of the running component\<close>

definition pending_prompt :: "pending \<Rightarrow> string" where
  "pending_prompt pd = (case pd of AwaitTransform p \<Rightarrow> p | AwaitChat p _ _ \<Rightarrow> p)"

definition role_inv :: "system \<Rightarrow> bool" where
  "role_inv sys \<longleftrightarrow>
     currentRole (app sys) \<noteq> Some [] \<and> (\<forall>pd\<in>set (inflight sys). pending_prompt pd \<noteq> [])"

definition loading_inv :: "system \<Rightarrow> bool" where
  "loading_inv sys \<longleftrightarrow>
     length (inflight sys) \<le> 1 \<and> (isLoading (app sys) \<longleftrightarrow> inflight sys \<noteq> [])"

definition queue_inv :: "system \<Rightarrow> bool" where
  "queue_inv sys \<longleftrightarrow> length (synth_queue (outside sys)) \<le> 1"

section \<open>Concrete inputs\<close>

definition voice_female :: voice where
  "voice_female =
     \<lparr>v_name = ''Google UK English Female'', v_lang = ''en-GB'',
      v_localService = False, v_default = False\<rparr>"

definition voice_male :: voice where
  "voice_male =
     \<lparr>v_name = ''Google UK English Male'', v_lang = ''en-GB'',
      v_localService = False, v_default = False\<rparr>"

definition example_image :: encoded_image where
  "example_image = \<lparr>base64 = Some ''QUJD'', mimeType = ''image/png''\<rparr>"

definition example_file :: image_file where
  "example_file = \<lparr>file_type = ''image/png''\<rparr>"

definition empty_world :: world where
  "empty_world = \<lparr>synth_queue = [], console = []\<rparr>"

text \<open>A state with the role \<open>King\<close> active and the message \<open>hello\<close> typed.\<close>

definition example_chat_state :: app_state where
  "example_chat_state =
     \<lparr>originalImage = Some example_image,
      displayImage = Some ''data:image/png;base64,WFla'',
      prompt = ''hello'', currentRole = Some ''King'', isLoading = False, error = None,
      voices = [voice_female, voice_male]\<rparr>"

text \<open>A state with the image uploaded, no role yet and the role \<open>queen\<close> typed.\<close>

definition example_upload_state :: app_state where
  "example_upload_state =
     \<lparr>originalImage = Some example_image,
      displayImage = Some ''data:image/png;base64,QUJD'',
      prompt = ''queen'', currentRole = None, isLoading = False, error = None,
      voices = []\<rparr>"

definition example_json_text :: string where
  \<open>example_json_text = ''{"language":"en-GB","response":"Greetings"}''\<close>

text \<open>A stand-in for \<open>JSON.parse\<close> that knows one text.\<close>

definition example_parse :: "string \<Rightarrow> jsval option" where
  "example_parse t =
     (if t = example_json_text
      then Some (JObj [(''language'', JStr ''en-GB''), (''response'', JStr ''Greetings'')])
      else None)"

definition example_image_response :: response where
  "example_image_response =
     \<lparr>candidates =
        Some [\<lparr>c_content =
                 Some \<lparr>parts =
                         Some [\<lparr>inlineData =
                                  Some \<lparr>d_data = Some ''WFla'',
                                        d_mimeType = Some ''image/png''\<rparr>\<rparr>]\<rparr>\<rparr>],
      r_text = None\<rparr>"

definition example_text_response :: "string \<Rightarrow> response" where
  "example_text_response t = \<lparr>candidates = None, r_text = Some t\<rparr>"

text \<open>An upload and a role typed; then the transform and a message typed to the
  persona; then the persona's answer.\<close>

definition example_upload_session :: "event list" where
  "example_upload_session =
     [ImageChange (Some example_file),
      ReaderEnd 0 (Some ''data:image/png;base64,QUJD''),
      Type_prompt ''queen'']"

definition example_session :: "event list" where
  "example_session =
     example_upload_session @
     [Submit,
      Respond 0 (Resolved example_image_response),
      Type_prompt ''hello'']"

definition example_spoken_session :: "event list" where
  "example_spoken_session =
     example_session @
     [Submit,
      Respond 0 (Resolved (example_text_response example_json_text))]"




section \<open>Properties of the handlers\<close>

subsection \<open>Strings\<close>

lemma trim_eq_Nil_iff: "trim p = [] \<longleftrightarrow> (\<forall>c\<in>set p. js_whitespace c)"
proof
  assume "trim p = []"
  then have a: "\<forall>c\<in>set (dropWhile js_whitespace p). js_whitespace c"
    by (simp add: trim_def dropWhile_eq_Nil_conv)
  have "dropWhile js_whitespace p = []"
  proof (rule ccontr)
    assume ne: "dropWhile js_whitespace p \<noteq> []"
    then have "\<not> js_whitespace (hd (dropWhile js_whitespace p))"
      by (rule hd_dropWhile)
    moreover have "hd (dropWhile js_whitespace p) \<in> set (dropWhile js_whitespace p)"
      using ne by simp
    ultimately show False using a by blast
  qed
  then show "\<forall>c\<in>set p. js_whitespace c"
    by (simp add: dropWhile_eq_Nil_conv)
next
  assume "\<forall>c\<in>set p. js_whitespace c"
  then have d: "dropWhile js_whitespace p = []"
    by (simp add: dropWhile_eq_Nil_conv)
  show "trim p = []"
    unfolding trim_def d by simp
qed

lemma trim_Nil: "trim [] = []"
  by (simp add: trim_def)

subsection \<open>The start of a submission\<close>

lemma start_blocked:
  "trim (prompt s) = [] \<or> originalImage s = None \<Longrightarrow>
   handleSubmit_start s = (s\<lparr>error := Some ''Please provide a role or a message.''\<rparr>, None)"
  by (auto simp: handleSubmit_start_def split: option.splits)

lemma start_passed:
  "originalImage s = Some img \<Longrightarrow> trim (prompt s) \<noteq> [] \<Longrightarrow>
   handleSubmit_start s =
     (s\<lparr>isLoading := True, error := None, prompt := []\<rparr>,
      Some (case active_role (currentRole s) of
              None \<Rightarrow> (TransformRequest img (transform_instruction (prompt s)),
                        AwaitTransform (prompt s))
            | Some role \<Rightarrow> (ChatRequest (systemInstruction role) (prompt s),
                           AwaitChat (prompt s) (gender_of_role role) (voices s))))"
  by (simp add: handleSubmit_start_def Let_def split: option.splits)

lemma start_pending_prompt:
  "handleSubmit_start s = (s1, Some (req, pd)) \<Longrightarrow>
     pending_prompt pd = prompt s \<and> trim (prompt s) \<noteq> [] \<and> currentRole s1 = currentRole s
     \<and> isLoading s1 \<and> originalImage s1 = originalImage s"
  by (auto simp: handleSubmit_start_def Let_def pending_prompt_def split: option.splits if_splits)

lemma start_none:
  "handleSubmit_start s = (s1, None) \<Longrightarrow>
     currentRole s1 = currentRole s \<and> isLoading s1 = isLoading s \<and> originalImage s1 = originalImage s"
  by (auto simp: handleSubmit_start_def Let_def split: option.splits if_splits)

subsection \<open>What the continuation leaves alone\<close>

lemma speak_queue:
  "speak vs t l g w = Inl (e, w1) \<Longrightarrow> synth_queue w1 = [] \<and> console w1 = console w"
  "speak vs t l g w = Inr w2 \<Longrightarrow>
     synth_queue w2 = [\<lparr>u_text = t, u_lang = l, u_voice = u_voice (hd (synth_queue w2))\<rparr>]"
  by (auto simp: speak_def Let_def synth_cancel_def synth_speak_def console_log_def
           split: sum.splits if_splits)

lemma speak_string_lang:
  "speak vs t (JStr l) g w =
     Inr (if filter (lang_matches l) vs \<noteq> []
          then synth_speak \<lparr>u_text = t, u_lang = JStr l,
                            u_voice = select_voice g (filter (lang_matches l) vs)\<rparr>
                 (synth_cancel w)
          else synth_speak \<lparr>u_text = t, u_lang = JStr l, u_voice = None\<rparr>
                 (console_log (Warn_no_voice (JStr l)) (synth_cancel w)))"
  by (simp add: speak_def lang_filter_def Let_def)

lemma speak_no_voice:
  "lang_filter l vs = Inr [] \<Longrightarrow>
   speak vs t l g w =
     Inr (w\<lparr>synth_queue := [\<lparr>u_text = t, u_lang = l, u_voice = None\<rparr>],
            console := console w @ [Warn_no_voice l]\<rparr>)"
  by (simp add: speak_def synth_speak_def synth_cancel_def console_log_def)

lemma transform_step_frame:
  "transform_step p out s = Inr s1 \<Longrightarrow>
     originalImage s1 = originalImage s \<and> isLoading s1 = isLoading s \<and> voices s1 = voices s"
  by (auto simp: transform_step_def split: awaited.splits sum.splits option.splits)

lemma parse_and_speak_frame:
  "parse_and_speak P js p g vs (s, w) = Inr (s1, w1) \<Longrightarrow>
     originalImage s1 = originalImage s \<and> isLoading s1 = isLoading s \<and> voices s1 = voices s
     \<and> currentRole s1 = currentRole s \<and> displayImage s1 = displayImage s"
  "parse_and_speak P js p g vs (s, w) = Inl (e, s1, w1) \<Longrightarrow> s1 = s"
  by (auto simp: parse_and_speak_def Let_def split: option.splits sum.splits if_splits prod.splits)

lemma parse_failed_frame:
  "parse_failed rt p g vs (s, w) = Inr (s1, w1) \<Longrightarrow>
     originalImage s1 = originalImage s \<and> isLoading s1 = isLoading s \<and> voices s1 = voices s
     \<and> currentRole s1 = currentRole s \<and> displayImage s1 = displayImage s"
  "parse_failed rt p g vs (s, w) = Inl (e, s1, w1) \<Longrightarrow> s1 = s"
  by (auto simp: parse_failed_def Let_def split: sum.splits if_splits prod.splits)

lemma chat_step_frame:
  "chat_step P p g vs out (s, w) = Inr (s1, w1) \<Longrightarrow>
     originalImage s1 = originalImage s \<and> isLoading s1 = isLoading s \<and> voices s1 = voices s
     \<and> currentRole s1 = currentRole s \<and> displayImage s1 = displayImage s"
  "chat_step P p g vs out (s, w) = Inl (e, s1, w1) \<Longrightarrow> s1 = s"
  by (auto simp: chat_step_def Let_def
      split: awaited.splits option.splits sum.splits prod.splits
      dest: parse_and_speak_frame parse_failed_frame)

lemma resume_frame:
  "handleSubmit_resume P pd out (s, w) = (s1, w1) \<Longrightarrow>
     originalImage s1 = originalImage s \<and> isLoading s1 = False \<and> voices s1 = voices s"
  by (auto simp: handleSubmit_resume_def Let_def split: pending.splits sum.splits prod.splits
      dest: transform_step_frame chat_step_frame)

lemma resume_role:
  "handleSubmit_resume P pd out (s, w) = (s1, w1) \<Longrightarrow>
     currentRole s1 = currentRole s \<or> currentRole s1 = Some (pending_prompt pd)"
  by (auto simp: handleSubmit_resume_def Let_def pending_prompt_def transform_step_def
           split: pending.splits sum.splits prod.splits awaited.splits option.splits
           dest: chat_step_frame)

lemma resume_clears_loading:
  "isLoading (fst (handleSubmit_resume P pd out sw)) = False"
  using resume_frame[of P pd out "fst sw" "snd sw"]
  by (cases "handleSubmit_resume P pd out sw") auto

lemma submit_as_resume:
  assumes "originalImage s = Some img" and "trim (prompt s) \<noteq> []"
  shows "active_role (currentRole s) = None \<Longrightarrow>
           handleSubmit P out (s, w) =
             (handleSubmit_resume P (AwaitTransform (prompt s)) out
                (s\<lparr>isLoading := True, error := None, prompt := []\<rparr>, w),
              [TransformRequest img (transform_instruction (prompt s))])"
    and "active_role (currentRole s) = Some role \<Longrightarrow>
           handleSubmit P out (s, w) =
             (handleSubmit_resume P (AwaitChat (prompt s) (gender_of_role role) (voices s)) out
                (s\<lparr>isLoading := True, error := None, prompt := []\<rparr>, w),
              [ChatRequest (systemInstruction role) (prompt s)])"
  using start_passed[OF assms] by (simp_all add: handleSubmit_def)

lemma submit_keeps_original:
  "originalImage (fst (fst (handleSubmit P out (s, w)))) = originalImage s"
proof (cases "handleSubmit_start s")
  case (Pair s1 rp)
  show ?thesis
  proof (cases rp)
    case None
    with Pair start_none[of s s1] show ?thesis by (simp add: handleSubmit_def)
  next
    case (Some x)
    obtain req pd where x: "x = (req, pd)" by (cases x) auto
    obtain s2 w2 where r: "handleSubmit_resume P pd out (s1, w) = (s2, w2)"
      by (cases "handleSubmit_resume P pd out (s1, w)") auto
    from Pair Some x start_pending_prompt[of s s1 req pd] resume_frame[OF r] r
    show ?thesis by (simp add: handleSubmit_def)
  qed
qed

subsection \<open>Upload and role reset\<close>

lemma reader_done_frame:
  "currentRole (reader_done fl res s) = currentRole s \<and> isLoading (reader_done fl res s) = isLoading s"
  by (simp add: reader_done_def reader_onloadend_def reader_onerror_def Let_def split: option.splits)

lemma reader_done_stores:
  "originalImage (reader_done fl (Some r) s) =
     Some \<lparr>base64 = split_1 CHR '','' r, mimeType = file_type fl\<rparr>
   \<and> displayImage (reader_done fl (Some r) s) =
     Some (data_url (file_type fl) (split_1 CHR '','' r))
   \<and> currentRole (reader_done fl (Some r) s) = currentRole s
   \<and> prompt (reader_done fl (Some r) s) = prompt s
   \<and> error (reader_done fl (Some r) s) = error s"
  by (simp add: reader_done_def reader_onloadend_def Let_def)

lemma handleRoleReset_fields:
  "currentRole (handleRoleReset s) = None \<and> isLoading (handleRoleReset s) = isLoading s
   \<and> originalImage (handleRoleReset s) = originalImage s"
  by (simp add: handleRoleReset_def Let_def split: option.splits)

subsection \<open>Events\<close>

lemma fire_Type_prompt:
  "fire P (Type_prompt p) sys =
     (if originalImage (app sys) \<noteq> None \<and> \<not> isLoading (app sys)
      then Some (sys\<lparr>app := (app sys)\<lparr>prompt := p\<rparr>\<rparr>) else None)"
  by (simp add: fire_def render_def)

lemma fire_Submit:
  "fire P Submit sys =
     (if originalImage (app sys) \<noteq> None \<and> \<not> isLoading (app sys)
      then (case handleSubmit_start (app sys) of
              (s1, None) \<Rightarrow> Some (sys\<lparr>app := s1\<rparr>)
            | (s1, Some (req, pd)) \<Rightarrow> Some (sys\<lparr>app := s1, inflight := inflight sys @ [pd]\<rparr>))
      else None)"
  by (simp add: fire_def render_def)

lemma fire_Respond:
  "fire P (Respond i out) sys =
     (if i < length (inflight sys)
      then (case handleSubmit_resume P (inflight sys ! i) out (app sys, outside sys) of
              (s1, w1) \<Rightarrow> Some (sys\<lparr>app := s1, outside := w1,
                                     inflight := remove_nth i (inflight sys)\<rparr>))
      else None)"
  by (simp add: fire_def)

lemma fire_ImageChange:
  "fire P (ImageChange f) sys =
     (case f of None \<Rightarrow> Some (sys\<lparr>app := app sys\<rparr>)
      | Some fl \<Rightarrow> Some (sys\<lparr>app := (app sys)\<lparr>error := None, currentRole := None, prompt := []\<rparr>,
                            reading := reading sys @ [fl]\<rparr>))"
  by (simp add: fire_def handleImageChange_def split: option.splits)

lemma fire_ReaderEnd:
  "fire P (ReaderEnd i result) sys =
     (if i < length (reading sys)
      then Some (sys\<lparr>app := reader_done (reading sys ! i) result (app sys),
                     reading := remove_nth i (reading sys)\<rparr>)
      else None)"
  by (simp add: fire_def)

lemma fire_Reset:
  "fire P Reset sys =
     (if originalImage (app sys) \<noteq> None \<and> active_role (currentRole (app sys)) \<noteq> None
         \<and> \<not> isLoading (app sys)
      then Some (sys\<lparr>app := handleRoleReset (app sys)\<rparr>) else None)"
  by (simp add: fire_def render_def)

lemma fire_VoicesChanged:
  "fire P (VoicesChanged vs) sys = Some (sys\<lparr>app := (app sys)\<lparr>voices := vs\<rparr>\<rparr>)"
  by (simp add: fire_def)

lemma fire_UtteranceEnd:
  "fire P UtteranceEnd sys =
     Some (sys\<lparr>outside := (outside sys)\<lparr>synth_queue := tl (synth_queue (outside sys))\<rparr>\<rparr>)"
  by (simp add: fire_def)

lemmas fire_simps = fire_Type_prompt fire_Submit fire_Respond fire_ImageChange fire_ReaderEnd
  fire_Reset fire_VoicesChanged fire_UtteranceEnd

lemma run_invariant:
  assumes step: "\<And>e s s'. I s \<Longrightarrow> fire P e s = Some s' \<Longrightarrow> I s'"
  shows "I sys0 \<Longrightarrow> run P es sys0 = Some sys \<Longrightarrow> I sys"
proof (induction es arbitrary: sys0)
  case Nil
  then show ?case by simp
next
  case (Cons e es)
  from Cons.prems(2) obtain s1 where f: "fire P e sys0 = Some s1" and r: "run P es s1 = Some sys"
    by (auto split: option.splits)
  from step[OF Cons.prems(1) f] have "I s1" .
  from Cons.IH[OF this r] show ?case .
qed

lemma set_remove_nth: "set (remove_nth i xs) \<subseteq> set xs"
  unfolding remove_nth_def using set_take_subset[of i xs] set_drop_subset[of "Suc i" xs] by auto

lemma remove_nth_single: "remove_nth 0 [x] = []"
  by (simp add: remove_nth_def)

subsection \<open>The concrete sessions\<close>

lemma example_upload_session_run:
  "run example_parse example_upload_session initial_system =
     Some \<lparr>app = example_upload_state, outside = empty_world, inflight = [], reading = []\<rparr>"
  by code_simp

lemma example_session_run:
  "run example_parse example_session initial_system =
     Some \<lparr>app = \<lparr>originalImage = Some example_image,
                   displayImage = Some ''data:image/png;base64,WFla'',
                   prompt = ''hello'', currentRole = Some ''queen'', isLoading = False,
                   error = None, voices = []\<rparr>,
           outside = empty_world, inflight = [], reading = []\<rparr>"
  by code_simp

lemma example_spoken_session_run:
  "run example_parse example_spoken_session initial_system =
     Some \<lparr>app = \<lparr>originalImage = Some example_image,
                   displayImage = Some ''data:image/png;base64,WFla'',
                   prompt = [], currentRole = Some ''queen'', isLoading = False,
                   error = None, voices = []\<rparr>,
           outside = \<lparr>synth_queue = [\<lparr>u_text = JStr ''Greetings'', u_lang = JStr ''en-GB'',
                                        u_voice = None\<rparr>],
                      console = [Warn_no_voice (JStr ''en-GB'')]\<rparr>,
           inflight = [], reading = []\<rparr>"
  by code_simp

lemma example_inflight_run:
  "run example_parse (example_upload_session @ [Submit]) initial_system =
     Some \<lparr>app = example_upload_state\<lparr>prompt := [], isLoading := True\<rparr>,
           outside = empty_world, inflight = [AwaitTransform ''queen''], reading = []\<rparr>"
  by code_simp

lemma example_transform_run:
  "run example_parse [Type_prompt ''queen'', Submit, Respond 0 (Resolved example_image_response)]
     \<lparr>app = reader_done example_file (Some ''data:image/png;base64,QUJD'') initial_state,
      outside = empty_world, inflight = [], reading = []\<rparr> =
   Some \<lparr>app = \<lparr>originalImage = Some example_image,
                 displayImage = Some ''data:image/png;base64,WFla'',
                 prompt = [], currentRole = Some ''queen'', isLoading = False,
                 error = None, voices = []\<rparr>,
         outside = empty_world, inflight = [], reading = []\<rparr>"
  by code_simp

lemma example_submit_start:
  "handleSubmit_start example_upload_state =
     (example_upload_state\<lparr>isLoading := True, error := None, prompt := []\<rparr>,
      Some (TransformRequest example_image (transform_instruction ''queen''),
            AwaitTransform ''queen''))"
  by (simp add: handleSubmit_start_def example_upload_state_def active_role_def
        trim_def js_whitespace_def Let_def)

lemma example_submit_fire:
  "fire example_parse Submit
     \<lparr>app = example_upload_state, outside = empty_world, inflight = [], reading = []\<rparr> =
   Some \<lparr>app = example_upload_state\<lparr>isLoading := True, error := None, prompt := []\<rparr>,
         outside = empty_world, inflight = [AwaitTransform ''queen''], reading = []\<rparr>"
  by (simp add: fire_simps example_submit_start) (simp add: example_upload_state_def)

lemma example_first_part:
  "first_part example_image_response =
     Inr (Some \<lparr>inlineData = Some \<lparr>d_data = Some ''WFla'', d_mimeType = Some ''image/png''\<rparr>\<rparr>)"
  by (simp add: example_image_response_def first_part_def first_def)

section \<open>The guard and the dispatch of a submission\<close>

text \<open>
  C10. A submission whose prompt is empty or consists of whitespace only, or that finds no
  uploaded image, sets the message \<open>Please provide a role or a message.\<close> and returns: no
  request is sent, and the role, both images, the prompt, the loading flag and the world
  stay as they were. A submission that passes the guard sends exactly one request.
\<close>

theorem submit_guard:
  "(if (\<forall>c\<in>set (prompt s). js_whitespace c) \<or> originalImage s = None
    then handleSubmit JSON_parse out (s, w) =
           ((s\<lparr>error := Some ''Please provide a role or a message.''\<rparr>, w), [])
    else length (snd (handleSubmit JSON_parse out (s, w))) = 1)"
proof (cases "(\<forall>c\<in>set (prompt s). js_whitespace c) \<or> originalImage s = None")
  case True
  then have "trim (prompt s) = [] \<or> originalImage s = None"
    by (simp add: trim_eq_Nil_iff)
  from start_blocked[OF this] True show ?thesis
    by (simp add: handleSubmit_def)
next
  case False
  then obtain img where i: "originalImage s = Some img" and t: "trim (prompt s) \<noteq> []"
    by (auto simp: trim_eq_Nil_iff)
  from start_passed[OF i t] False show ?thesis
    by (simp add: handleSubmit_def split: option.splits)
qed

theorem submit_guard_witness:
  "handleSubmit example_parse Rejected (example_chat_state\<lparr>prompt := ''  ''\<rparr>, empty_world) =
     ((example_chat_state\<lparr>prompt := ''  '',
          error := Some ''Please provide a role or a message.''\<rparr>, empty_world), [])
   \<and> length (snd (handleSubmit example_parse Rejected (example_chat_state, empty_world))) = 1"
  using submit_guard[where s = "example_chat_state\<lparr>prompt := ''  ''\<rparr>"
          and JSON_parse = example_parse and out = Rejected and w = empty_world]
        submit_guard[where s = example_chat_state
          and JSON_parse = example_parse and out = Rejected and w = empty_world]
  by (simp add: example_chat_state_def js_whitespace_def)

lemma role_inv_step:
  assumes "role_inv s" and "fire P e s = Some s'"
  shows "role_inv s'"
proof (cases e)
  case (Type_prompt p)
  with assms show ?thesis by (auto simp: fire_simps role_inv_def split: if_splits)
next
  case Submit
  with assms show ?thesis
    using trim_Nil
    by (auto simp: fire_simps role_inv_def split: if_splits prod.splits option.splits
        dest!: start_pending_prompt start_none)
next
  case (Respond i out)
  with assms show ?thesis
    using set_remove_nth[of i "inflight s"]
    by (auto simp: fire_simps role_inv_def split: if_splits prod.splits dest!: resume_role)
next
  case (ImageChange f)
  with assms show ?thesis by (auto simp: fire_simps role_inv_def split: option.splits)
next
  case (ReaderEnd i r)
  with assms show ?thesis by (auto simp: fire_simps role_inv_def reader_done_frame split: if_splits)
next
  case Reset
  with assms show ?thesis by (auto simp: fire_simps role_inv_def handleRoleReset_fields split: if_splits)
next
  case (VoicesChanged vs)
  with assms show ?thesis by (auto simp: fire_simps role_inv_def)
next
  case UtteranceEnd
  with assms show ?thesis by (auto simp: fire_simps role_inv_def)
qed

lemma reachable_role:
  "run P es initial_system = Some sys \<Longrightarrow> currentRole (app sys) \<noteq> Some []"
proof -
  assume r: "run P es initial_system = Some sys"
  have "role_inv initial_system"
    by (simp add: role_inv_def initial_system_def initial_state_def)
  from run_invariant[where I = role_inv, OF role_inv_step this r]
  show ?thesis by (simp add: role_inv_def)
qed

text \<open>
  C1. A submission that passes the guard sends the image-transform request when no role
  is set, and then, when the response carries an image, makes the submitted prompt the
  role; it sends the chat request when a role is set. It sends that one request only.
\<close>

theorem submit_dispatch:
  assumes "run JSON_parse es initial_system = Some sys"
    and "originalImage (app sys) = Some img"
    and "trim (prompt (app sys)) \<noteq> []"
  shows "(currentRole (app sys) = None \<longrightarrow>
            snd (handleSubmit JSON_parse out (app sys, outside sys)) =
              [TransformRequest img (transform_instruction (prompt (app sys)))]
            \<and> (\<forall>r pt d. out = Resolved r \<and> first_part r = Inr (Some pt) \<and> inlineData pt = Some d \<longrightarrow>
                  currentRole (fst (fst (handleSubmit JSON_parse out (app sys, outside sys)))) =
                    Some (prompt (app sys))))
       \<and> (\<forall>role. currentRole (app sys) = Some role \<longrightarrow>
            snd (handleSubmit JSON_parse out (app sys, outside sys)) =
              [ChatRequest (systemInstruction role) (prompt (app sys))])"
proof -
  note st = start_passed[OF assms(2) assms(3)]
  have ne: "currentRole (app sys) \<noteq> Some []"
    using reachable_role[OF assms(1)] .
  have a: "currentRole (app sys) = None \<Longrightarrow>
            snd (handleSubmit JSON_parse out (app sys, outside sys)) =
              [TransformRequest img (transform_instruction (prompt (app sys)))]"
    using st by (simp add: handleSubmit_def active_role_def)
  have b: "currentRole (fst (fst (handleSubmit JSON_parse out (app sys, outside sys)))) =
             Some (prompt (app sys))"
    if "currentRole (app sys) = None" "out = Resolved r" "first_part r = Inr (Some pt)"
       "inlineData pt = Some d" for r pt d
    using st that
    by (simp add: handleSubmit_def active_role_def handleSubmit_resume_def transform_step_def)
  have c: "snd (handleSubmit JSON_parse out (app sys, outside sys)) =
              [ChatRequest (systemInstruction role) (prompt (app sys))]"
    if "currentRole (app sys) = Some role" for role
  proof -
    from that ne obtain c cs where "role = c # cs" by (cases role) auto
    with that st show ?thesis
      by (simp add: handleSubmit_def active_role_def)
  qed
  from a b c show ?thesis by blast
qed

theorem submit_dispatch_witness:
  "snd (handleSubmit example_parse (Resolved example_image_response)
         (example_upload_state, empty_world)) =
     [TransformRequest example_image (transform_instruction ''queen'')]
   \<and> currentRole (fst (fst (handleSubmit example_parse (Resolved example_image_response)
         (example_upload_state, empty_world)))) = Some ''queen''
   \<and> snd (handleSubmit example_parse (Resolved (example_text_response example_json_text))
         (example_upload_state\<lparr>displayImage := Some ''data:image/png;base64,WFla'',
            prompt := ''hello'', currentRole := Some ''queen''\<rparr>, empty_world)) =
     [ChatRequest (systemInstruction ''queen'') ''hello'']"
  using submit_dispatch[where JSON_parse = example_parse and es = example_upload_session
      and out = "Resolved example_image_response" and img = example_image,
      OF example_upload_session_run]
    submit_dispatch[where JSON_parse = example_parse and es = example_session
      and out = "Resolved (example_text_response example_json_text)" and img = example_image,
      OF example_session_run]
  by (simp add: example_upload_state_def example_image_response_def first_part_def first_def
        trim_def js_whitespace_def)

section \<open>Failures of a submission\<close>

lemma resume_rejected:
  "handleSubmit_resume P pd Rejected (s, w) =
     (s\<lparr>error := Some ''An error occurred while generating the response. Please try again.'',
        prompt := pending_prompt pd, isLoading := False\<rparr>,
      console_log Error_caught w)"
  by (cases pd)
     (simp_all add: handleSubmit_resume_def transform_step_def chat_step_def pending_prompt_def)

lemma resume_transform_unreadable:
  "first_part r = Inl e \<Longrightarrow>
   handleSubmit_resume P (AwaitTransform p) (Resolved r) (s, w) =
     (s\<lparr>error := Some ''An error occurred while generating the response. Please try again.'',
        prompt := p, isLoading := False\<rparr>,
      console_log Error_caught w)"
  by (simp add: handleSubmit_resume_def transform_step_def)

lemma resume_transform_no_image:
  "first_part r = Inr None \<or> (\<exists>pt. first_part r = Inr (Some pt) \<and> inlineData pt = None) \<Longrightarrow>
   handleSubmit_resume P (AwaitTransform p) (Resolved r) (s, w) =
     (s\<lparr>error := Some ''Failed to transform the image. Please try a different role.'',
        prompt := p, isLoading := False\<rparr>, w)"
  by (auto simp: handleSubmit_resume_def transform_step_def)

lemma resume_chat_no_text:
  "r_text r = None \<Longrightarrow>
   handleSubmit_resume P (AwaitChat p g vs) (Resolved r) (s, w) =
     (s\<lparr>error := Some ''An error occurred while generating the response. Please try again.'',
        prompt := p, isLoading := False\<rparr>,
      console_log Error_caught w)"
  by (simp add: handleSubmit_resume_def chat_step_def)

lemma resume_chat_no_response_field:
  "r_text r = Some t \<Longrightarrow> P (jsonString (trim t)) = Some v \<Longrightarrow> v \<noteq> JNull \<Longrightarrow>
   v \<noteq> JUndefined \<Longrightarrow> \<not> truthy (get_prop v ''response'') \<Longrightarrow>
   handleSubmit_resume P (AwaitChat p g vs) (Resolved r) (s, w) =
     (s\<lparr>error := Some ''I'm sorry, I couldn't think of a response.'',
        prompt := p, isLoading := False\<rparr>, w)"
  by (simp add: handleSubmit_resume_def chat_step_def parse_and_speak_def)

lemma parse_throws:
  "P js \<in> {None, Some JNull, Some JUndefined} \<Longrightarrow>
   \<exists>e. parse_and_speak P js p g vs (s, w) = Inl (e, s, w)"
  by (auto simp: parse_and_speak_def)

lemma resume_chat_empty_text:
  assumes "r_text r = Some t" and "trim t = []"
    and "P (jsonString []) \<in> {None, Some JNull, Some JUndefined}"
  shows "handleSubmit_resume P (AwaitChat p g vs) (Resolved r) (s, w) =
     (s\<lparr>error := Some ''I'm sorry, I received an invalid response.'',
        prompt := p, isLoading := False\<rparr>,
      console_log (Error_parse []) w)"
proof -
  from parse_throws[of P "jsonString []" p g vs s w] assms(3) obtain e where
    "parse_and_speak P (jsonString []) p g vs (s, w) = Inl (e, s, w)" by blast
  with assms(1,2) show ?thesis
    by (simp add: handleSubmit_resume_def chat_step_def parse_failed_def)
qed

lemma parse_failed_spoken:
  "rt \<noteq> [] \<Longrightarrow>
   \<exists>w' v. parse_failed rt p g vs (s, w) = Inr (s, w')
        \<and> synth_queue w' = [\<lparr>u_text = JStr rt, u_lang = JStr ''en-US'', u_voice = v\<rparr>]"
  by (simp add: parse_failed_def Let_def speak_string_lang synth_speak_def synth_cancel_def
        console_log_def)

lemma resume_chat_not_json:
  assumes "r_text r = Some t" and "trim t \<noteq> []"
    and "P (jsonString (trim t)) \<in> {None, Some JNull, Some JUndefined}"
  shows "\<exists>w'. handleSubmit_resume P (AwaitChat p g vs) (Resolved r) (s, w) =
           (s\<lparr>isLoading := False\<rparr>, w')
         \<and> (\<exists>v. synth_queue w' =
               [\<lparr>u_text = JStr (trim t), u_lang = JStr ''en-US'', u_voice = v\<rparr>])"
proof -
  from parse_throws[of P "jsonString (trim t)" p g vs s w] assms(3) obtain e where
    "parse_and_speak P (jsonString (trim t)) p g vs (s, w) = Inl (e, s, w)" by blast
  with assms(1) have cs: "chat_step P p g vs (Resolved r) (s, w) =
      parse_failed (trim t) p g vs (s, w)"
    by (simp add: chat_step_def)
  from parse_failed_spoken[OF assms(2), of p g vs s w] obtain w' v where
    pf: "parse_failed (trim t) p g vs (s, w) = Inr (s, w')"
    and q: "synth_queue w' = [\<lparr>u_text = JStr (trim t), u_lang = JStr ''en-US'', u_voice = v\<rparr>]"
    by blast
  from cs pf have "handleSubmit_resume P (AwaitChat p g vs) (Resolved r) (s, w) =
           (s\<lparr>isLoading := False\<rparr>, w')"
    by (simp add: handleSubmit_resume_def)
  with q show ?thesis by blast
qed

lemma resume_chat_no_voice:
  assumes "r_text r = Some t" and "P (jsonString (trim t)) = Some v"
    and "v \<noteq> JNull" and "v \<noteq> JUndefined" and "truthy (get_prop v ''response'')"
    and "lang_filter (get_prop v ''language'') vs = Inr []"
  shows "handleSubmit_resume P (AwaitChat p g vs) (Resolved r) (s, w) =
     (s\<lparr>isLoading := False\<rparr>,
      w\<lparr>synth_queue := [\<lparr>u_text = get_prop v ''response'',
                         u_lang = get_prop v ''language'', u_voice = None\<rparr>],
        console := console w @ [Warn_no_voice (get_prop v ''language'')]\<rparr>)"
  using assms
  by (simp add: handleSubmit_resume_def chat_step_def parse_and_speak_def
        speak_no_voice[OF assms(6)])

text \<open>
  C2 as stated fails. With the role \<open>King\<close> active, a chat response whose text is no
  JSON is spoken, and an answer in a language without an installed voice is spoken after
  a console warning: neither sets an error message, and the prompt field stays empty.
\<close>

theorem fallback_speech_counterexample:
  "error (fst (fst (handleSubmit example_parse (Resolved (example_text_response ''Hello there''))
       (example_chat_state, empty_world)))) = None
   \<and> prompt (fst (fst (handleSubmit example_parse
       (Resolved (example_text_response ''Hello there''))
       (example_chat_state, empty_world)))) = []
   \<and> map u_text (synth_queue (snd (fst (handleSubmit example_parse
       (Resolved (example_text_response ''Hello there''))
       (example_chat_state, empty_world))))) = [JStr ''Hello there'']
   \<and> error (fst (fst (handleSubmit example_parse
       (Resolved (example_text_response example_json_text))
       (example_chat_state\<lparr>voices := []\<rparr>, empty_world)))) = None
   \<and> prompt (fst (fst (handleSubmit example_parse
       (Resolved (example_text_response example_json_text))
       (example_chat_state\<lparr>voices := []\<rparr>, empty_world)))) = []
   \<and> console (snd (fst (handleSubmit example_parse
       (Resolved (example_text_response example_json_text))
       (example_chat_state\<lparr>voices := []\<rparr>, empty_world)))) = [Warn_no_voice (JStr ''en-GB'')]"
  by code_simp

text \<open>
  C2 (amended). For a submission that passed the guard: a request that throws, a
  transform response that cannot be read or carries no image, and a chat response that
  has no text, whose JSON has no response text, or whose text is empty, each set an error
  message and put the submitted input back into the prompt field. A chat response with a
  non-empty text that is no JSON is spoken as it is, in \<open>en-US\<close>, and a language for
  which no voice is installed is logged to the console and spoken without a voice; in
  both cases no error message is set and the prompt field stays empty. In every case the
  loading flag is cleared and the one request is not repeated.
\<close>

theorem submission_failure_handling:
  assumes "originalImage s = Some img" and "trim (prompt s) \<noteq> []"
  shows "let s' = fst (fst (handleSubmit JSON_parse out (s, w)));
             w' = snd (fst (handleSubmit JSON_parse out (s, w)));
             generic = Some ''An error occurred while generating the response. Please try again.''
         in (out = Rejected \<longrightarrow> error s' = generic \<and> prompt s' = prompt s)
          \<and> (\<forall>r. out = Resolved r \<and> active_role (currentRole s) = None \<longrightarrow>
                ((\<exists>e. first_part r = Inl e) \<longrightarrow> error s' = generic \<and> prompt s' = prompt s)
              \<and> (first_part r = Inr None
                  \<or> (\<exists>pt. first_part r = Inr (Some pt) \<and> inlineData pt = None) \<longrightarrow>
                   error s' = Some ''Failed to transform the image. Please try a different role.''
                   \<and> prompt s' = prompt s))
          \<and> (\<forall>r role t. out = Resolved r \<and> active_role (currentRole s) = Some role \<longrightarrow>
                (r_text r = None \<longrightarrow> error s' = generic \<and> prompt s' = prompt s)
              \<and> (\<forall>v. r_text r = Some t \<and> JSON_parse (jsonString (trim t)) = Some v
                      \<and> v \<noteq> JNull \<and> v \<noteq> JUndefined \<and> \<not> truthy (get_prop v ''response'') \<longrightarrow>
                   error s' = Some ''I'm sorry, I couldn't think of a response.''
                   \<and> prompt s' = prompt s)
              \<and> (r_text r = Some t \<and> trim t = []
                    \<and> JSON_parse (jsonString []) \<in> {None, Some JNull, Some JUndefined} \<longrightarrow>
                   error s' = Some ''I'm sorry, I received an invalid response.''
                   \<and> prompt s' = prompt s)
              \<and> (r_text r = Some t \<and> trim t \<noteq> []
                    \<and> JSON_parse (jsonString (trim t)) \<in> {None, Some JNull, Some JUndefined} \<longrightarrow>
                   error s' = None \<and> prompt s' = []
                   \<and> (\<exists>v. synth_queue w' =
                          [\<lparr>u_text = JStr (trim t), u_lang = JStr ''en-US'', u_voice = v\<rparr>]))
              \<and> (\<forall>v. r_text r = Some t \<and> JSON_parse (jsonString (trim t)) = Some v
                      \<and> v \<noteq> JNull \<and> v \<noteq> JUndefined \<and> truthy (get_prop v ''response'')
                      \<and> lang_filter (get_prop v ''language'') (voices s) = Inr [] \<longrightarrow>
                   error s' = None \<and> prompt s' = []
                   \<and> synth_queue w' = [\<lparr>u_text = get_prop v ''response'',
                                          u_lang = get_prop v ''language'', u_voice = None\<rparr>]
                   \<and> console w' = console w @ [Warn_no_voice (get_prop v ''language'')]))
          \<and> \<not> isLoading s'
          \<and> length (snd (handleSubmit JSON_parse out (s, w))) = 1"
proof -
  let ?R = "handleSubmit JSON_parse out (s, w)"
  let ?s' = "fst (fst ?R)"
  let ?w' = "snd (fst ?R)"
  let ?generic = "Some ''An error occurred while generating the response. Please try again.''"
  let ?s1 = "s\<lparr>isLoading := True, error := None, prompt := []\<rparr>"
  note sub = submit_as_resume[OF assms, where P = JSON_parse and out = out and w = w]
  have br: "active_role (currentRole s) = None \<or> (\<exists>role. active_role (currentRole s) = Some role)"
    by (cases "active_role (currentRole s)") auto
  have c1: "out = Rejected \<longrightarrow> error ?s' = ?generic \<and> prompt ?s' = prompt s"
    using br sub by (auto simp: resume_rejected pending_prompt_def)
  have c2: "\<forall>r. out = Resolved r \<and> active_role (currentRole s) = None \<longrightarrow>
                ((\<exists>e. first_part r = Inl e) \<longrightarrow> error ?s' = ?generic \<and> prompt ?s' = prompt s)
              \<and> (first_part r = Inr None
                  \<or> (\<exists>pt. first_part r = Inr (Some pt) \<and> inlineData pt = None) \<longrightarrow>
                   error ?s' = Some ''Failed to transform the image. Please try a different role.''
                   \<and> prompt ?s' = prompt s)"
  proof (intro allI impI conjI)
    fix r
    assume a: "out = Resolved r \<and> active_role (currentRole s) = None"
      and b: "\<exists>e. first_part r = Inl e"
    then obtain e where e: "first_part r = Inl e" by blast
    from a sub(1) resume_transform_unreadable[OF e, where P = JSON_parse and p = "prompt s" and s = ?s1 and w = w]
    show "error ?s' = ?generic" and "prompt ?s' = prompt s" by simp_all
  next
    fix r
    assume a: "out = Resolved r \<and> active_role (currentRole s) = None"
      and b: "first_part r = Inr None
                  \<or> (\<exists>pt. first_part r = Inr (Some pt) \<and> inlineData pt = None)"
    from a sub(1) resume_transform_no_image[OF b, where P = JSON_parse and p = "prompt s" and s = ?s1 and w = w]
    show "error ?s' = Some ''Failed to transform the image. Please try a different role.''"
      and "prompt ?s' = prompt s" by simp_all
  qed
  have c3: "\<forall>r role t. out = Resolved r \<and> active_role (currentRole s) = Some role \<longrightarrow>
                (r_text r = None \<longrightarrow> error ?s' = ?generic \<and> prompt ?s' = prompt s)
              \<and> (\<forall>v. r_text r = Some t \<and> JSON_parse (jsonString (trim t)) = Some v
                      \<and> v \<noteq> JNull \<and> v \<noteq> JUndefined \<and> \<not> truthy (get_prop v ''response'') \<longrightarrow>
                   error ?s' = Some ''I'm sorry, I couldn't think of a response.''
                   \<and> prompt ?s' = prompt s)
              \<and> (r_text r = Some t \<and> trim t = []
                    \<and> JSON_parse (jsonString []) \<in> {None, Some JNull, Some JUndefined} \<longrightarrow>
                   error ?s' = Some ''I'm sorry, I received an invalid response.''
                   \<and> prompt ?s' = prompt s)
              \<and> (r_text r = Some t \<and> trim t \<noteq> []
                    \<and> JSON_parse (jsonString (trim t)) \<in> {None, Some JNull, Some JUndefined} \<longrightarrow>
                   error ?s' = None \<and> prompt ?s' = []
                   \<and> (\<exists>v. synth_queue ?w' =
                          [\<lparr>u_text = JStr (trim t), u_lang = JStr ''en-US'', u_voice = v\<rparr>]))
              \<and> (\<forall>v. r_text r = Some t \<and> JSON_parse (jsonString (trim t)) = Some v
                      \<and> v \<noteq> JNull \<and> v \<noteq> JUndefined \<and> truthy (get_prop v ''response'')
                      \<and> lang_filter (get_prop v ''language'') (voices s) = Inr [] \<longrightarrow>
                   error ?s' = None \<and> prompt ?s' = []
                   \<and> synth_queue ?w' = [\<lparr>u_text = get_prop v ''response'',
                                          u_lang = get_prop v ''language'', u_voice = None\<rparr>]
                   \<and> console ?w' = console w @ [Warn_no_voice (get_prop v ''language'')])"
  proof (intro allI impI)
    fix r role t
    assume a: "out = Resolved r \<and> active_role (currentRole s) = Some role"
    let ?g = "gender_of_role role"
    from a sub(2)[where role = role]
    have R: "fst ?R = handleSubmit_resume JSON_parse (AwaitChat (prompt s) ?g (voices s))
                        (Resolved r) (?s1, w)"
      by simp
    have d1: "r_text r = None \<longrightarrow> error ?s' = ?generic \<and> prompt ?s' = prompt s"
      using resume_chat_no_text[where r = r and P = JSON_parse and p = "prompt s" and g = ?g and vs = "voices s" and s = ?s1 and w = w] R by simp
    have d2: "\<forall>v. r_text r = Some t \<and> JSON_parse (jsonString (trim t)) = Some v
                      \<and> v \<noteq> JNull \<and> v \<noteq> JUndefined \<and> \<not> truthy (get_prop v ''response'') \<longrightarrow>
                   error ?s' = Some ''I'm sorry, I couldn't think of a response.''
                   \<and> prompt ?s' = prompt s"
      using resume_chat_no_response_field[where r = r and t = t and P = JSON_parse and p = "prompt s" and g = ?g and vs = "voices s" and s = ?s1 and w = w] R
      by simp
    have d3: "r_text r = Some t \<and> trim t = []
                    \<and> JSON_parse (jsonString []) \<in> {None, Some JNull, Some JUndefined} \<longrightarrow>
                   error ?s' = Some ''I'm sorry, I received an invalid response.''
                   \<and> prompt ?s' = prompt s"
      using resume_chat_empty_text[where r = r and t = t and P = JSON_parse and p = "prompt s" and g = ?g and vs = "voices s" and s = ?s1 and w = w] R
      by simp
    have d4: "r_text r = Some t \<and> trim t \<noteq> []
                    \<and> JSON_parse (jsonString (trim t)) \<in> {None, Some JNull, Some JUndefined} \<longrightarrow>
                   error ?s' = None \<and> prompt ?s' = []
                   \<and> (\<exists>v. synth_queue ?w' =
                          [\<lparr>u_text = JStr (trim t), u_lang = JStr ''en-US'', u_voice = v\<rparr>])"
    proof
      assume h: "r_text r = Some t \<and> trim t \<noteq> []
                    \<and> JSON_parse (jsonString (trim t)) \<in> {None, Some JNull, Some JUndefined}"
      from resume_chat_not_json[where r = r and t = t and P = JSON_parse and p = "prompt s" and g = ?g and vs = "voices s" and s = ?s1 and w = w] h
      obtain w2 v where
        "handleSubmit_resume JSON_parse (AwaitChat (prompt s) ?g (voices s)) (Resolved r) (?s1, w)
           = (?s1\<lparr>isLoading := False\<rparr>, w2)"
        and "synth_queue w2 = [\<lparr>u_text = JStr (trim t), u_lang = JStr ''en-US'', u_voice = v\<rparr>]"
        by blast
      with R show "error ?s' = None \<and> prompt ?s' = []
                   \<and> (\<exists>v. synth_queue ?w' =
                          [\<lparr>u_text = JStr (trim t), u_lang = JStr ''en-US'', u_voice = v\<rparr>])"
        by simp
    qed
    have d5: "\<forall>v. r_text r = Some t \<and> JSON_parse (jsonString (trim t)) = Some v
                      \<and> v \<noteq> JNull \<and> v \<noteq> JUndefined \<and> truthy (get_prop v ''response'')
                      \<and> lang_filter (get_prop v ''language'') (voices s) = Inr [] \<longrightarrow>
                   error ?s' = None \<and> prompt ?s' = []
                   \<and> synth_queue ?w' = [\<lparr>u_text = get_prop v ''response'',
                                          u_lang = get_prop v ''language'', u_voice = None\<rparr>]
                   \<and> console ?w' = console w @ [Warn_no_voice (get_prop v ''language'')]"
      using resume_chat_no_voice[where r = r and t = t and P = JSON_parse and p = "prompt s" and g = ?g and vs = "voices s" and s = ?s1 and w = w] R
      by simp
    from d1 d2 d3 d4 d5
    show "(r_text r = None \<longrightarrow> error ?s' = ?generic \<and> prompt ?s' = prompt s)
              \<and> (\<forall>v. r_text r = Some t \<and> JSON_parse (jsonString (trim t)) = Some v
                      \<and> v \<noteq> JNull \<and> v \<noteq> JUndefined \<and> \<not> truthy (get_prop v ''response'') \<longrightarrow>
                   error ?s' = Some ''I'm sorry, I couldn't think of a response.''
                   \<and> prompt ?s' = prompt s)
              \<and> (r_text r = Some t \<and> trim t = []
                    \<and> JSON_parse (jsonString []) \<in> {None, Some JNull, Some JUndefined} \<longrightarrow>
                   error ?s' = Some ''I'm sorry, I received an invalid response.''
                   \<and> prompt ?s' = prompt s)
              \<and> (r_text r = Some t \<and> trim t \<noteq> []
                    \<and> JSON_parse (jsonString (trim t)) \<in> {None, Some JNull, Some JUndefined} \<longrightarrow>
                   error ?s' = None \<and> prompt ?s' = []
                   \<and> (\<exists>v. synth_queue ?w' =
                          [\<lparr>u_text = JStr (trim t), u_lang = JStr ''en-US'', u_voice = v\<rparr>]))
              \<and> (\<forall>v. r_text r = Some t \<and> JSON_parse (jsonString (trim t)) = Some v
                      \<and> v \<noteq> JNull \<and> v \<noteq> JUndefined \<and> truthy (get_prop v ''response'')
                      \<and> lang_filter (get_prop v ''language'') (voices s) = Inr [] \<longrightarrow>
                   error ?s' = None \<and> prompt ?s' = []
                   \<and> synth_queue ?w' = [\<lparr>u_text = get_prop v ''response'',
                                          u_lang = get_prop v ''language'', u_voice = None\<rparr>]
                   \<and> console ?w' = console w @ [Warn_no_voice (get_prop v ''language'')])"
      by (intro conjI)
  qed
  have c4: "\<not> isLoading ?s'"
    using br sub resume_clears_loading by auto
  have c5: "length (snd ?R) = 1"
    using br sub by auto
  from c1 c2 c3 c4 c5 show ?thesis
    unfolding Let_def by (intro conjI)
qed

theorem submission_failure_handling_witness:
  "error (fst (fst (handleSubmit example_parse Rejected (example_chat_state, empty_world)))) =
     Some ''An error occurred while generating the response. Please try again.''
   \<and> prompt (fst (fst (handleSubmit example_parse Rejected (example_chat_state, empty_world)))) =
     ''hello''
   \<and> \<not> isLoading (fst (fst (handleSubmit example_parse Rejected
                                (example_chat_state, empty_world))))"
  using submission_failure_handling[where s = example_chat_state and img = example_image
      and JSON_parse = example_parse and out = Rejected and w = empty_world]
  by (simp add: Let_def example_chat_state_def trim_def js_whitespace_def)

section \<open>The one request in flight\<close>

lemma loading_inv_step:
  assumes "loading_inv s" and "fire P e s = Some s'"
  shows "loading_inv s'"
proof (cases e)
  case (Type_prompt p)
  with assms show ?thesis by (auto simp: fire_simps loading_inv_def split: if_splits)
next
  case Submit
  with assms show ?thesis
    by (auto simp: fire_simps loading_inv_def split: if_splits prod.splits option.splits
        dest!: start_pending_prompt start_none)
next
  case (Respond i out)
  with assms obtain pd where one: "inflight s = [pd]" and i0: "i = 0"
    by (cases "inflight s") (auto simp: fire_simps loading_inv_def split: if_splits)
  with Respond assms show ?thesis
    by (auto simp: fire_simps loading_inv_def remove_nth_single split: prod.splits
        dest!: resume_frame)
next
  case (ImageChange f)
  with assms show ?thesis by (auto simp: fire_simps loading_inv_def split: option.splits)
next
  case (ReaderEnd i r)
  with assms show ?thesis
    by (auto simp: fire_simps loading_inv_def reader_done_frame split: if_splits)
next
  case Reset
  with assms show ?thesis
    by (auto simp: fire_simps loading_inv_def handleRoleReset_fields split: if_splits)
next
  case (VoicesChanged vs)
  with assms show ?thesis by (auto simp: fire_simps loading_inv_def)
next
  case UtteranceEnd
  with assms show ?thesis by (auto simp: fire_simps loading_inv_def)
qed

lemma reachable_loading:
  assumes "run P es initial_system = Some sys"
  shows "loading_inv sys"
proof -
  have "loading_inv initial_system"
    by (simp add: loading_inv_def initial_system_def initial_state_def)
  from run_invariant[where I = loading_inv, OF loading_inv_step this assms]
  show ?thesis .
qed

text \<open>
  C7. At most one request is outstanding at any time. A submission that sends a request
  sets the loading flag first, the continuation clears it whatever the outcome, and the
  flag is set exactly while a request is outstanding; while it is set the input and the
  submit button are disabled, so that neither typing nor a new submission can happen.
\<close>

theorem single_outstanding_request:
  assumes "run JSON_parse es initial_system = Some sys"
  shows "length (inflight sys) \<le> 1
       \<and> (isLoading (app sys) \<longleftrightarrow> inflight sys \<noteq> [])
       \<and> (isLoading (app sys) \<longrightarrow>
            input_disabled (render (app sys)) \<and> submit_disabled (render (app sys))
            \<and> fire JSON_parse Submit sys = None
            \<and> (\<forall>p. fire JSON_parse (Type_prompt p) sys = None))
       \<and> (\<forall>s1 req pd. handleSubmit_start (app sys) = (s1, Some (req, pd)) \<longrightarrow> isLoading s1)
       \<and> (\<forall>pd out. \<not> isLoading (fst (handleSubmit_resume JSON_parse pd out
                                          (app sys, outside sys))))"
proof -
  from reachable_loading[OF assms]
  have a: "length (inflight sys) \<le> 1" and b: "isLoading (app sys) \<longleftrightarrow> inflight sys \<noteq> []"
    by (simp_all add: loading_inv_def)
  have c: "isLoading (app sys) \<longrightarrow>
            input_disabled (render (app sys)) \<and> submit_disabled (render (app sys))
            \<and> fire JSON_parse Submit sys = None
            \<and> (\<forall>p. fire JSON_parse (Type_prompt p) sys = None)"
    by (simp add: render_def fire_simps)
  have d: "\<forall>s1 req pd. handleSubmit_start (app sys) = (s1, Some (req, pd)) \<longrightarrow> isLoading s1"
    using start_pending_prompt by blast
  have e: "\<forall>pd out. \<not> isLoading (fst (handleSubmit_resume JSON_parse pd out
                                          (app sys, outside sys)))"
    by (simp add: resume_clears_loading)
  from a b c d e show ?thesis by blast
qed

theorem single_outstanding_request_witness:
  "fire example_parse Submit
     \<lparr>app = example_upload_state\<lparr>prompt := [], isLoading := True\<rparr>,
      outside = empty_world, inflight = [AwaitTransform ''queen''], reading = []\<rparr> = None
   \<and> \<not> isLoading (fst (handleSubmit_resume example_parse (AwaitTransform ''queen'') Rejected
          (example_upload_state\<lparr>prompt := [], isLoading := True\<rparr>, empty_world)))"
  using single_outstanding_request[where JSON_parse = example_parse
      and es = "example_upload_session @ [Submit]", OF example_inflight_run]
  by simp

section \<open>The synthesizer queue\<close>

lemma speak_bound:
  "speak vs t l g w = Inl (e, w1) \<Longrightarrow> length (synth_queue w1) \<le> 1"
  "speak vs t l g w = Inr w2 \<Longrightarrow> length (synth_queue w2) \<le> 1"
  using speak_queue(1)[of vs t l g w e w1] speak_queue(2)[of vs t l g w w2]
  by (auto intro: eq_imp_le dest: arg_cong[where f = length])

lemma console_log_queue: "synth_queue (console_log m w) = synth_queue w"
  by (simp add: console_log_def)

lemma parse_and_speak_bound:
  assumes "length (synth_queue w) \<le> 1"
  shows "parse_and_speak P js p g vs (s, w) = Inr (s1, w1) \<Longrightarrow> length (synth_queue w1) \<le> 1"
    and "parse_and_speak P js p g vs (s, w) = Inl (e, s1, w1) \<Longrightarrow> length (synth_queue w1) \<le> 1"
  using assms
  by (auto simp: parse_and_speak_def Let_def
           split: option.splits sum.splits if_splits prod.splits dest: speak_bound)

lemma parse_failed_bound:
  assumes "length (synth_queue w) \<le> 1"
  shows "parse_failed rt p g vs (s, w) = Inr (s1, w1) \<Longrightarrow> length (synth_queue w1) \<le> 1"
    and "parse_failed rt p g vs (s, w) = Inl (e, s1, w1) \<Longrightarrow> length (synth_queue w1) \<le> 1"
  using assms
  by (auto simp: parse_failed_def Let_def console_log_queue
           split: sum.splits if_splits prod.splits dest: speak_bound)

lemma chat_step_bound:
  assumes q: "length (synth_queue w) \<le> 1"
  shows "chat_step P p g vs out (s, w) = Inr (s1, w1) \<Longrightarrow> length (synth_queue w1) \<le> 1"
    and "chat_step P p g vs out (s, w) = Inl (e, s1, w1) \<Longrightarrow> length (synth_queue w1) \<le> 1"
proof -
  have "(\<forall>s1 w1. chat_step P p g vs out (s, w) = Inr (s1, w1) \<longrightarrow> length (synth_queue w1) \<le> 1)
      \<and> (\<forall>e s1 w1. chat_step P p g vs out (s, w) = Inl (e, s1, w1) \<longrightarrow>
            length (synth_queue w1) \<le> 1)"
  proof (cases out)
    case Rejected
    with q show ?thesis by (simp add: chat_step_def)
  next
    case (Resolved r)
    show ?thesis
    proof (cases "r_text r")
      case None
      with Resolved q show ?thesis by (simp add: chat_step_def)
    next
      case (Some t)
      show ?thesis
      proof (cases "parse_and_speak P (jsonString (trim t)) p g vs (s, w)")
        case (Inr sw1)
        obtain s3 w3 where sw1: "sw1 = (s3, w3)" by (cases sw1) auto
        from Inr sw1 parse_and_speak_bound(1)[OF q, of P _ p g vs s s3 w3]
        have "length (synth_queue w3) \<le> 1" by simp
        with Resolved Some Inr sw1 show ?thesis
          by (simp add: chat_step_def)
      next
        case (Inl x)
        obtain e2 s2 w2 where x: "x = (e2, s2, w2)" by (cases x) auto
        from Inl x parse_and_speak_bound(2)[OF q, of P _ p g vs s e2 s2 w2]
        have w2: "length (synth_queue w2) \<le> 1" by simp
        from Resolved Some Inl x
        have "chat_step P p g vs out (s, w) = parse_failed (trim t) p g vs (s2, w2)"
          by (simp add: chat_step_def)
        with parse_failed_bound[OF w2, of "trim t" p g vs s2] show ?thesis
          by simp
      qed
    qed
  qed
  then show "chat_step P p g vs out (s, w) = Inr (s1, w1) \<Longrightarrow> length (synth_queue w1) \<le> 1"
    and "chat_step P p g vs out (s, w) = Inl (e, s1, w1) \<Longrightarrow> length (synth_queue w1) \<le> 1"
    by blast+
qed

lemma resume_bound:
  assumes q: "length (synth_queue w) \<le> 1"
    and r: "handleSubmit_resume P pd out (s, w) = (s1, w1)"
  shows "length (synth_queue w1) \<le> 1"
proof (cases pd)
  case (AwaitTransform p)
  with q r show ?thesis
    by (auto simp: handleSubmit_resume_def Let_def console_log_queue split: sum.splits)
next
  case (AwaitChat p g vs)
  show ?thesis
  proof (cases "chat_step P p g vs out (s, w)")
    case (Inl x)
    obtain e2 s2 w2 where x: "x = (e2, s2, w2)" by (cases x) auto
    from Inl x chat_step_bound(2)[OF q, of P p g vs out s e2 s2 w2]
    have "length (synth_queue w2) \<le> 1" by simp
    with AwaitChat Inl x r show ?thesis
      by (auto simp: handleSubmit_resume_def Let_def console_log_queue)
  next
    case (Inr sw2)
    obtain s2 w2 where x: "sw2 = (s2, w2)" by (cases sw2) auto
    from Inr x chat_step_bound(1)[OF q, of P p g vs out s s2 w2]
    have "length (synth_queue w2) \<le> 1" by simp
    with AwaitChat Inr x r show ?thesis
      by (auto simp: handleSubmit_resume_def Let_def)
  qed
qed

lemma queue_inv_step:
  assumes "queue_inv s" and "fire P e s = Some s'"
  shows "queue_inv s'"
proof (cases e)
  case (Respond i out)
  from assms have q: "length (synth_queue (outside s)) \<le> 1"
    by (simp add: queue_inv_def)
  from Respond assms resume_bound[OF q, of P "inflight s ! i" out "app s"]
  show ?thesis
    by (auto simp: fire_simps queue_inv_def split: if_splits prod.splits)
next
  case UtteranceEnd
  with assms show ?thesis by (auto simp: fire_simps queue_inv_def)
qed (use assms in \<open>auto simp: fire_simps queue_inv_def split: if_splits prod.splits option.splits\<close>)

lemma reachable_queue:
  assumes "run P es initial_system = Some sys"
  shows "queue_inv sys"
proof -
  have "queue_inv initial_system"
    by (simp add: queue_inv_def initial_system_def)
  from run_invariant[where I = queue_inv, OF queue_inv_step this assms]
  show ?thesis .
qed

text \<open>
  C6. Every call of \<open>speak\<close> empties the queue of the synthesizer before it queues its
  own utterance: after the call the queue holds that utterance alone, or nothing when the
  call threw. The queue of the running component never holds more than one utterance.
\<close>

theorem speak_cancels_prior:
  "(case speak vs t l g w of
      Inl (e, w1) \<Rightarrow> synth_queue w1 = []
    | Inr w1 \<Rightarrow> \<exists>v. synth_queue w1 = [\<lparr>u_text = t, u_lang = l, u_voice = v\<rparr>])
   \<and> (run JSON_parse es initial_system = Some sys \<longrightarrow>
        length (synth_queue (outside sys)) \<le> 1)"
proof -
  have a: "case speak vs t l g w of
      Inl (e, w1) \<Rightarrow> synth_queue w1 = []
    | Inr w1 \<Rightarrow> \<exists>v. synth_queue w1 = [\<lparr>u_text = t, u_lang = l, u_voice = v\<rparr>]"
    using speak_queue[of vs t l g w]
    by (auto split: sum.splits)
  have b: "run JSON_parse es initial_system = Some sys \<longrightarrow>
        length (synth_queue (outside sys)) \<le> 1"
    using reachable_queue[of JSON_parse es sys] by (simp add: queue_inv_def)
  from a b show ?thesis ..
qed

theorem speak_cancels_prior_witness:
  "(case speak [] (JStr ''Hi'') (JStr ''en-US'') neutral
           \<lparr>synth_queue = [\<lparr>u_text = JStr ''one'', u_lang = JStr ''en-US'', u_voice = None\<rparr>,
                           \<lparr>u_text = JStr ''two'', u_lang = JStr ''en-US'', u_voice = None\<rparr>],
            console = []\<rparr> of
      Inl (e, w1) \<Rightarrow> synth_queue w1 = []
    | Inr w1 \<Rightarrow> \<exists>v. synth_queue w1 =
                      [\<lparr>u_text = JStr ''Hi'', u_lang = JStr ''en-US'', u_voice = v\<rparr>])
   \<and> length (synth_queue
       \<lparr>synth_queue = [\<lparr>u_text = JStr ''Greetings'', u_lang = JStr ''en-GB'', u_voice = None\<rparr>],
        console = [Warn_no_voice (JStr ''en-GB'')]\<rparr>) \<le> 1"
  using speak_cancels_prior[where JSON_parse = example_parse and es = example_spoken_session
      and vs = "[]" and t = "JStr ''Hi''" and l = "JStr ''en-US''" and g = neutral
      and w = "\<lparr>synth_queue = [\<lparr>u_text = JStr ''one'', u_lang = JStr ''en-US'', u_voice = None\<rparr>,
                           \<lparr>u_text = JStr ''two'', u_lang = JStr ''en-US'', u_voice = None\<rparr>],
            console = []\<rparr>"]
    example_spoken_session_run
  by simp

section \<open>The uploaded image\<close>

lemma fire_keeps_original:
  assumes "fire P e s = Some s'" and "\<forall>i res. e \<noteq> ReaderEnd i res"
  shows "originalImage (app s') = originalImage (app s)"
proof (cases e)
  case Submit
  with assms show ?thesis
    by (auto simp: fire_simps split: if_splits prod.splits option.splits
        dest!: start_pending_prompt start_none)
next
  case (Respond i out)
  with assms show ?thesis
    by (auto simp: fire_simps split: if_splits prod.splits dest!: resume_frame)
next
  case (ReaderEnd i r)
  with assms show ?thesis by simp
next
  case Reset
  with assms show ?thesis
    by (auto simp: fire_simps handleRoleReset_fields split: if_splits)
qed (use assms in \<open>auto simp: fire_simps split: if_splits option.splits\<close>)

lemma run_keeps_original:
  "run P es sys = Some sys' \<Longrightarrow> \<forall>i res. ReaderEnd i res \<notin> set es \<Longrightarrow>
     originalImage (app sys') = originalImage (app sys)"
proof (induction es arbitrary: sys)
  case Nil
  then show ?case by simp
next
  case (Cons e es)
  from Cons.prems(1) obtain s1 where f: "fire P e sys = Some s1" and r: "run P es s1 = Some sys'"
    by (auto split: option.splits)
  from Cons.prems(2) have ne: "\<forall>i res. e \<noteq> ReaderEnd i res"
    and rest: "\<forall>i res. ReaderEnd i res \<notin> set es"
    by auto
  from Cons.IH[OF r rest] fire_keeps_original[OF f ne] show ?case by simp
qed

text \<open>
  C8. Neither a transform nor a chat turn changes the uploaded image. After an upload and
  any further events in which no other upload ends, \<open>originalImage\<close> is still the uploaded
  image, and \<open>handleRoleReset\<close> then clears the role, shows again the picture the upload
  showed, and leaves \<open>originalImage\<close> as it is.
\<close>

theorem role_reset_restores_upload:
  assumes "app sys = reader_done fl (Some r) s"
    and "run JSON_parse es sys = Some sys'"
    and "\<forall>i res. ReaderEnd i res \<notin> set es"
  shows "originalImage (app sys') = originalImage (app sys)
       \<and> currentRole (handleRoleReset (app sys')) = None
       \<and> displayImage (handleRoleReset (app sys')) = displayImage (app sys)
       \<and> originalImage (handleRoleReset (app sys')) = originalImage (app sys)"
proof -
  from run_keeps_original[OF assms(2) assms(3)]
  have keep: "originalImage (app sys') = originalImage (app sys)" .
  have up: "originalImage (app sys) =
              Some \<lparr>base64 = split_1 CHR '','' r, mimeType = file_type fl\<rparr>"
    and shown: "displayImage (app sys) = Some (data_url (file_type fl) (split_1 CHR '','' r))"
    using reader_done_stores[of fl r s] assms(1) by simp_all
  from keep up have "displayImage (handleRoleReset (app sys')) =
      Some (data_url (file_type fl) (split_1 CHR '','' r))"
    by (simp add: handleRoleReset_def)
  with keep shown show ?thesis
    by (simp add: handleRoleReset_fields)
qed

theorem role_reset_restores_upload_witness:
  "displayImage (handleRoleReset
      \<lparr>originalImage = Some example_image,
       displayImage = Some ''data:image/png;base64,WFla'',
       prompt = [], currentRole = Some ''queen'', isLoading = False,
       error = None, voices = []\<rparr>) = Some ''data:image/png;base64,QUJD''
   \<and> originalImage (handleRoleReset
      \<lparr>originalImage = Some example_image,
       displayImage = Some ''data:image/png;base64,WFla'',
       prompt = [], currentRole = Some ''queen'', isLoading = False,
       error = None, voices = []\<rparr>) = Some example_image"
  using role_reset_restores_upload[where JSON_parse = example_parse
      and fl = example_file and r = "''data:image/png;base64,QUJD''" and s = initial_state
      and es = "[Type_prompt ''queen'', Submit, Respond 0 (Resolved example_image_response)]"
      and sys = "\<lparr>app = reader_done example_file (Some ''data:image/png;base64,QUJD'')
                         initial_state,
                 outside = empty_world, inflight = [], reading = []\<rparr>",
      OF _ example_transform_run]
  by (simp add: reader_done_def reader_onloadend_def Let_def split_1_def data_url_def tpl_def
        example_file_def example_image_def initial_state_def)










lemma transform_success_display:
  assumes "handleSubmit_start s = (s1, Some (req, AwaitTransform p))"
    and "first_part resp = Inr (Some pt)" and "inlineData pt = Some d"
  shows "displayImage (fst (fst (handleSubmit P (Resolved resp) (s, w)))) =
           Some (''data:'' @ tpl (d_mimeType d) @ '';base64,'' @ tpl (d_data d))"
  using assms
  by (simp add: handleSubmit_def handleSubmit_resume_def transform_step_def)

text \<open>
  C4 as stated fails. A transform that succeeds shows the new picture and sets the role,
  and \<open>originalImage\<close> is still the upload, not the transformed image.
\<close>

theorem transform_keeps_original_counterexample:
  "originalImage (fst (fst (handleSubmit example_parse (Resolved example_image_response)
       (example_upload_state, empty_world)))) = originalImage example_upload_state
   \<and> originalImage (fst (fst (handleSubmit example_parse (Resolved example_image_response)
       (example_upload_state, empty_world)))) \<noteq>
       Some \<lparr>base64 = Some ''WFla'', mimeType = ''image/png''\<rparr>
   \<and> displayImage (fst (fst (handleSubmit example_parse (Resolved example_image_response)
       (example_upload_state, empty_world)))) = Some ''data:image/png;base64,WFla''
   \<and> currentRole (fst (fst (handleSubmit example_parse (Resolved example_image_response)
       (example_upload_state, empty_world)))) = Some ''queen''"
  by code_simp

text \<open>
  C4 (amended). The stored encoded image is produced by a file upload: there is none at
  the start, the end of a read stores the file's data and type, and no other event
  changes it. A submission leaves it as it is; a successful image transform replaces the
  displayed image only.
\<close>

theorem original_image_set_by_upload_only:
  "originalImage initial_state = None
   \<and> originalImage (reader_done fl (Some r) s) =
       Some \<lparr>base64 = split_1 CHR '','' r, mimeType = file_type fl\<rparr>
   \<and> (fire JSON_parse e sys = Some sys' \<and> (\<forall>i res. e \<noteq> ReaderEnd i res) \<longrightarrow>
        originalImage (app sys') = originalImage (app sys))
   \<and> originalImage (fst (fst (handleSubmit JSON_parse out (s, w)))) = originalImage s
   \<and> (handleSubmit_start s = (s', Some (req, AwaitTransform p))
        \<and> first_part resp = Inr (Some pt) \<and> inlineData pt = Some d \<longrightarrow>
        displayImage (fst (fst (handleSubmit JSON_parse (Resolved resp) (s, w)))) =
          Some (''data:'' @ tpl (d_mimeType d) @ '';base64,'' @ tpl (d_data d)))"
proof -
  have a: "originalImage initial_state = None"
    by (simp add: initial_state_def)
  have b: "originalImage (reader_done fl (Some r) s) =
       Some \<lparr>base64 = split_1 CHR '','' r, mimeType = file_type fl\<rparr>"
    using reader_done_stores by blast
  have c: "fire JSON_parse e sys = Some sys' \<and> (\<forall>i res. e \<noteq> ReaderEnd i res) \<longrightarrow>
        originalImage (app sys') = originalImage (app sys)"
    using fire_keeps_original by blast
  have d: "originalImage (fst (fst (handleSubmit JSON_parse out (s, w)))) = originalImage s"
    by (rule submit_keeps_original)
  have e: "handleSubmit_start s = (s', Some (req, AwaitTransform p))
        \<and> first_part resp = Inr (Some pt) \<and> inlineData pt = Some d \<longrightarrow>
        displayImage (fst (fst (handleSubmit JSON_parse (Resolved resp) (s, w)))) =
          Some (''data:'' @ tpl (d_mimeType d) @ '';base64,'' @ tpl (d_data d))"
    using transform_success_display by blast
  from a b c d e show ?thesis by blast
qed

theorem original_image_set_by_upload_only_witness:
  "originalImage (example_upload_state\<lparr>isLoading := True, error := None, prompt := []\<rparr>) =
     originalImage example_upload_state
   \<and> displayImage (fst (fst (handleSubmit example_parse (Resolved example_image_response)
        (example_upload_state, empty_world)))) = Some ''data:image/png;base64,WFla''"
  using original_image_set_by_upload_only[where JSON_parse = example_parse and e = Submit
      and sys = "\<lparr>app = example_upload_state, outside = empty_world, inflight = [],
                  reading = []\<rparr>"
      and sys' = "\<lparr>app = example_upload_state\<lparr>isLoading := True, error := None, prompt := []\<rparr>,
         outside = empty_world, inflight = [AwaitTransform ''queen''], reading = []\<rparr>"
      and s = example_upload_state and w = empty_world
      and s' = "example_upload_state\<lparr>isLoading := True, error := None, prompt := []\<rparr>"
      and req = "TransformRequest example_image (transform_instruction ''queen'')"
      and p = "''queen''" and resp = example_image_response
      and pt = "\<lparr>inlineData = Some \<lparr>d_data = Some ''WFla'', d_mimeType = Some ''image/png''\<rparr>\<rparr>"
      and d = "\<lparr>d_data = Some ''WFla'', d_mimeType = Some ''image/png''\<rparr>"]
    example_submit_start example_submit_fire example_first_part
  by (simp add: tpl_def)

section \<open>The voice of an utterance\<close>

lemma first_member: "xs \<noteq> [] \<Longrightarrow> \<exists>x. first xs = Some x \<and> x \<in> set xs"
  by (cases xs) (simp_all add: first_def)

lemma find_member: "find P xs = Some x \<Longrightarrow> x \<in> set xs"
  by (auto simp: find_Some_iff)

lemma select_voice_member:
  assumes "langVoices \<noteq> []"
  shows "\<exists>v. select_voice g langVoices = Some v \<and> v \<in> set langVoices"
proof -
  from first_member[OF assms] obtain x where x: "first langVoices = Some x" "x \<in> set langVoices"
    by blast
  have dflt: "\<exists>v. or_else (find v_default langVoices)
             (or_else (find (\<lambda>v. \<not> v_localService v) langVoices) (first langVoices)) = Some v
           \<and> v \<in> set langVoices"
    using x by (auto simp: or_else_def split: option.splits dest: find_member)
  show ?thesis
  proof (cases "(g = male \<or> g = female) \<and> filter (gender_matches g) langVoices \<noteq> []")
    case True
    let ?gv = "filter (gender_matches g) langVoices"
    from True first_member[of ?gv] obtain y where y: "first ?gv = Some y" "y \<in> set ?gv"
      by blast
    have "\<exists>v. or_else (find (\<lambda>v. \<not> v_localService v) ?gv) (first ?gv) = Some v \<and> v \<in> set ?gv"
      using y by (auto simp: or_else_def split: option.splits dest: find_member)
    then obtain v where "or_else (find (\<lambda>v. \<not> v_localService v) ?gv) (first ?gv) = Some v"
      and "v \<in> set langVoices" by auto
    with True show ?thesis
      by (auto simp: select_voice_def Let_def)
  next
    case False
    with dflt show ?thesis
      by (auto simp: select_voice_def Let_def)
  qed
qed

lemma speak_voice_language:
  assumes "speak vs t (JStr l) g w = Inr w'" and "\<exists>v\<in>set vs. lang_matches l v"
  shows "\<exists>v. synth_queue w' = [\<lparr>u_text = t, u_lang = JStr l, u_voice = Some v\<rparr>]
             \<and> v \<in> set vs \<and> lang_matches l v"
proof -
  let ?lv = "filter (lang_matches l) vs"
  from assms(2) have ne: "?lv \<noteq> []"
    by (auto simp: filter_empty_conv)
  from select_voice_member[OF ne, of g] obtain v where
    v: "select_voice g ?lv = Some v" "v \<in> set ?lv" by blast
  from assms(1) ne v show ?thesis
    by (auto simp: speak_string_lang synth_speak_def synth_cancel_def)
qed

text \<open>
  C5. With the role \<open>King\<close> the gender hint is \<open>male\<close>. Two voices for \<open>en-GB\<close> are
  installed, one named Female and one named Male, and the answer is in \<open>en-GB\<close>: the
  utterance gets the voice named Female, because the word \<open>female\<close> contains \<open>male\<close>.
\<close>

theorem male_hint_selects_female_voice:
  "gender_of_role ''King'' = male
   \<and> map u_voice (synth_queue (snd (fst (handleSubmit example_parse
        (Resolved (example_text_response example_json_text))
        (example_chat_state, empty_world))))) = [Some voice_female]
   \<and> voices example_chat_state = [voice_female, voice_male]
   \<and> lang_matches ''en-GB'' voice_male
   \<and> gender_matches male voice_female
   \<and> \<not> includes_str (toLowerCase (v_name voice_male)) ''female''"
  by code_simp

section \<open>The proxy\<close>

lemma api_talk_verbatim_or_500:
  "snd (api_talk api b) =
     \<lparr>status = 500, body = JObj [(''error'', JStr ''Something went wrong'')]\<rparr>
   \<or> (\<exists>req st data. fst (api_talk api b) = Some req \<and> api req = FetchResponse st (Some data)
         \<and> snd (api_talk api b) = \<lparr>status = 200, body = data\<rparr>)"
  by (auto simp: api_talk_def Let_def split: sum.splits upstream.splits option.splits)

lemma voiceId_of_own:
  "map_of roleVoices (toLowerCase r) = Some v \<Longrightarrow> voiceId_of (JStr r) = Inr (VoiceName v)"
  by (simp add: voiceId_of_def voice_for_key_def object_get_def)

lemma voiceId_of_default:
  "map_of roleVoices (toLowerCase r) = None \<Longrightarrow> toLowerCase r \<notin> set Object_prototype_keys \<Longrightarrow>
   voiceId_of (JStr r) = Inr (VoiceName ''default_voice'')"
  by (simp add: voiceId_of_def voice_for_key_def object_get_def)

lemma api_talk_passes_upstream_status:
  assumes "voiceId_of (b_role b) = Inr v"
    and "api \<lparr>script_type = ''text'', script_input = b_text b, script_voice_id = v,
              source_url = ''https://....avatar-image-url''\<rparr> = FetchResponse st (Some data)"
  shows "snd (api_talk api b) = \<lparr>status = 200, body = data\<rparr>"
  using assms by (simp add: api_talk_def)

text \<open>
  C3. For the role \<open>constructor\<close> the lookup in \<open>roleVoices\<close> finds the member that every
  object inherits: the request that is forwarded carries that member in place of a
  voice name, neither a voice of the table nor \<open>default_voice\<close>. A role of the table
  gets its voice, and another role that the table does not have gets \<open>default_voice\<close>.
\<close>

theorem inherited_key_is_no_voice:
  "fst (api_talk api \<lparr>b_text = JStr ''hi'', b_role = JStr ''constructor''\<rparr>) =
     Some \<lparr>script_type = ''text'', script_input = JStr ''hi'',
           script_voice_id = InheritedValue ''constructor'',
           source_url = ''https://....avatar-image-url''\<rparr>
   \<and> voiceId_of (JStr ''King'') = Inr (VoiceName ''male_deep_indian'')
   \<and> voiceId_of (JStr ''robot'') = Inr (VoiceName ''default_voice'')"
proof -
  have a: "voiceId_of (JStr ''constructor'') = Inr (InheritedValue ''constructor'')"
    by code_simp
  have b: "voiceId_of (JStr ''King'') = Inr (VoiceName ''male_deep_indian'')"
    by code_simp
  have c: "voiceId_of (JStr ''robot'') = Inr (VoiceName ''default_voice'')"
    by code_simp
  from a have "fst (api_talk api \<lparr>b_text = JStr ''hi'', b_role = JStr ''constructor''\<rparr>) =
     Some \<lparr>script_type = ''text'', script_input = JStr ''hi'',
           script_voice_id = InheritedValue ''constructor'',
           source_url = ''https://....avatar-image-url''\<rparr>"
    by (simp add: api_talk_def Let_def split: upstream.splits option.splits)
  with b c show ?thesis by simp
qed
end
